theory Spec2Isabelle
  imports Main "HOL-Library.Word" "HOL-Library.Sublist" "HOL-Library.Multiset"
    "HOL-Library.Product_Lexorder"
begin

section \<open>JavaScript strings and numbers\<close>

text \<open>
  A JavaScript string is a sequence of UTF-16 code units; \<^verbatim>\<open>length\<close>, \<^verbatim>\<open>slice\<close>,
  \<^verbatim>\<open>includes\<close> and \<^verbatim>\<open>startsWith\<close> all count and compare code units. The Korean text
  and the emoji of the string literals in \<^verbatim>\<open>src/api/index.ts\<close> are written as their
  code units in hexadecimal (an emoji outside the basic plane is a surrogate pair, hence
  two units); printable ASCII is written through \<open>ascii\<close>.
\<close>

type_synonym jsstring = "16 word list"

definition ascii :: "string \<Rightarrow> jsstring" where
  "ascii s = map (\<lambda>c. of_nat (of_char c)) s"

text \<open>\<^verbatim>\<open>s.startsWith(q)\<close> and \<^verbatim>\<open>s.includes(q)\<close>, both from position 0.\<close>

fun str_startsWith :: "jsstring \<Rightarrow> jsstring \<Rightarrow> bool" where
  "str_startsWith s [] = True"
| "str_startsWith [] (q # qs) = False"
| "str_startsWith (c # s) (q # qs) = (c = q \<and> str_startsWith s qs)"

fun str_includes :: "jsstring \<Rightarrow> jsstring \<Rightarrow> bool" where
  "str_includes [] q = (q = [])"
| "str_includes (c # s) q = (str_startsWith (c # s) q \<or> str_includes s q)"

text \<open>
  \<^verbatim>\<open>s.trim()\<close> removes the white space and line terminators of ECMAScript from both
  ends; each of them is a single code unit.
\<close>

definition isWhiteSpace :: "16 word \<Rightarrow> bool" where
  "isWhiteSpace c =
     (c \<in> set [0x0009, 0x000A, 0x000B, 0x000C, 0x000D, 0x0020, 0x00A0, 0x1680,
                0x2000, 0x2001, 0x2002, 0x2003, 0x2004, 0x2005, 0x2006, 0x2007, 0x2008,
                0x2009, 0x200A, 0x2028, 0x2029, 0x202F, 0x205F, 0x3000, 0xFEFF])"

definition str_trim :: "jsstring \<Rightarrow> jsstring" where
  "str_trim s = rev (dropWhile isWhiteSpace (rev (dropWhile isWhiteSpace s)))"

text \<open>
  \<^verbatim>\<open>s.toLowerCase()\<close>. The built-in follows the Unicode case mappings, which act on
  the whole string: a mapping can depend on the neighbours of a character (the capital
  sigma at the end of a word) and can change the length (U+0130). On a string made only
  of Basic Latin code units and Hangul syllables none of this arises: the letters \<^verbatim>\<open>A\<close>
  to \<^verbatim>\<open>Z\<close> go to \<^verbatim>\<open>a\<close> to \<^verbatim>\<open>z\<close> and every other unit stays, which is
  \<open>asciiLower\<close> unit by unit. On every other string the result is that of the
  built-in of the platform, a parameter.
\<close>

definition asciiLower :: "16 word \<Rightarrow> 16 word" where
  "asciiLower c = (if 0x41 \<le> c \<and> c \<le> 0x5A then c + 0x20 else c)"

definition plainUnit :: "16 word \<Rightarrow> bool" where
  "plainUnit c = (c \<le> 0x7F \<or> (0xAC00 \<le> c \<and> c \<le> 0xD7A3))"

definition str_toLowerCase :: "(jsstring \<Rightarrow> jsstring) \<Rightarrow> jsstring \<Rightarrow> jsstring" where
  "str_toLowerCase platform s = (if list_all plainUnit s then map asciiLower s else platform s)"

text \<open>
  \<^verbatim>\<open>x || d\<close> for a string that may be missing: \<^verbatim>\<open>undefined\<close> and the empty string are
  falsy. \<open>tpl\<close> is the text a template literal puts for \<^verbatim>\<open>${x}\<close>.
\<close>

definition or_str :: "jsstring option \<Rightarrow> jsstring \<Rightarrow> jsstring" where
  "or_str x d = (case x of None \<Rightarrow> d | Some s \<Rightarrow> if s = [] then d else s)"

definition tpl :: "jsstring option \<Rightarrow> jsstring" where
  "tpl x = (case x of None \<Rightarrow> ascii ''undefined'' | Some s \<Rightarrow> s)"

text \<open>
  Numbers are modelled as integers (values of \<^verbatim>\<open>number\<close> that are fractions,
  \<^verbatim>\<open>NaN\<close> or infinite are outside the model). \<open>numToString\<close> is \<^verbatim>\<open>String(n)\<close> for a
  natural number, its decimal digits; \<open>numberToString\<close> is the same for an integer.
\<close>

definition digit :: "nat \<Rightarrow> 16 word" where
  "digit d = of_nat (48 + d)"

fun numToString :: "nat \<Rightarrow> jsstring" where
  "numToString n =
     (if n < 10 then [digit n] else numToString (n div 10) @ [digit (n mod 10)])"

definition numberToString :: "int \<Rightarrow> jsstring" where
  "numberToString i = (if i < 0 then ascii ''-'' @ numToString (nat (- i)) else numToString (nat i))"

text \<open>
  \<^verbatim>\<open>n.toLocaleString()\<close> for a natural number. The result of the built-in depends on
  the host's default locale; the model is the \<^verbatim>\<open>en-US\<close> rendering (groups of three digits
  separated by commas), which is the one the specification names.
\<close>

definition pad3 :: "nat \<Rightarrow> jsstring" where
  "pad3 n = [digit (n div 100), digit (n div 10 mod 10), digit (n mod 10)]"

fun toLocaleString :: "nat \<Rightarrow> jsstring" where
  "toLocaleString n =
     (if n < 1000 then numToString n
      else toLocaleString (n div 1000) @ ascii '','' @ pad3 (n mod 1000))"

declare numToString.simps [simp del] toLocaleString.simps [simp del]

text \<open>
  \<^verbatim>\<open>xs.slice(0, n)\<close> for an integer \<open>n\<close>: a negative end counts from the end of the
  array.
\<close>

definition slice0 :: "int \<Rightarrow> 'a list \<Rightarrow> 'a list" where
  "slice0 n xs = (if n < 0 then take (nat (int (length xs) + n)) xs else take (nat n) xs)"

section \<open>Type definitions (lines 19--49)\<close>

text \<open>
  The records follow the interfaces of the source. A field the interface marks optional,
  and a field the code reads with \<^verbatim>\<open>?.\<close> or \<^verbatim>\<open>||\<close> although the interface requires
  it, is an \<open>option\<close>. Every field of \<^verbatim>\<open>ToolArguments\<close> is optional.
\<close>

record SubwayArrival =
  subwayId :: jsstring
  bstatnNm :: jsstring
  arvlMsg2 :: jsstring
  updnLine :: jsstring
  btrainNo :: "jsstring option"

record BusStation =
  STOPS_NM :: "jsstring option"
  STOPS_NO :: jsstring
  STOPS_TYPE :: "jsstring option"

record BikeStation =
  stationName :: "jsstring option"
  stationId :: jsstring
  parkingBikeTotCnt :: int
  rackTotCnt :: int

record BusArrival =
  stNm :: jsstring
  arsId :: jsstring
  rtNm :: jsstring
  busRouteAbrv :: "jsstring option"
  arrmsg1 :: jsstring
  arrmsg2 :: jsstring
  routeType :: "jsstring option"
  stationTp :: "jsstring option"

record ToolArguments =
  station_name :: "jsstring option"
  line :: "jsstring option"
  ars_id :: "jsstring option"
  query :: "jsstring option"
  location :: "jsstring option"
  limit :: "int option"
  response_format :: "jsstring option"

text \<open>The arguments of a call that gives none (\<^verbatim>\<open>params?.arguments || {}\<close>, line 793).\<close>

definition emptyArguments :: ToolArguments where
  "emptyArguments =
     \<lparr>station_name = None, line = None, ars_id = None, query = None, location = None,
      limit = None, response_format = None\<rparr>"

section \<open>The upstream feeds and the runtime\<close>

text \<open>
  What the code reads of the parsed body of each feed. \<open>errorMessage\<close> and \<open>msgHeader\<close>
  are the status objects the arrival feeds embed. An element of \<^verbatim>\<open>realtimeArrivalList\<close>
  is a record or \<^verbatim>\<open>null\<close> (\<open>None\<close>): the combined tool keeps the list as it comes
  and reads the records only when it renders them, outside its \<^verbatim>\<open>try\<close> blocks.
\<close>

record ErrorMessage =
  code :: "jsstring option"
  message :: "jsstring option"

record SubwayResponse =
  errorMessage :: "ErrorMessage option"
  realtimeArrivalList :: "SubwayArrival option list option"

record MsgHeader =
  headerCd :: "jsstring option"
  headerMsg :: "jsstring option"

record BusResponse =
  msgHeader :: "MsgHeader option"
  msgBody_itemList :: "BusArrival list option"

text \<open>
  \<^verbatim>\<open>await fetchWithTimeout(url)\<close> followed by \<^verbatim>\<open>await response.json()\<close> either yields
  the parsed body or throws (time-out, transport error, a body that does not parse or
  has not the shape read); a throw is \<open>Inl\<close> of the text \<^verbatim>\<open>getErrorMessage\<close> gives for it.
  The feeds are functions of the variable parts of their URLs: the index range and
  station of the subway feed, the stop identifier of the bus feed, the index range of the
  two directories. For the directories the body is reduced to
  \<^verbatim>\<open>data.busStopLocationXyInfo?.row\<close> and \<^verbatim>\<open>data.rentBikeStatus?.row\<close>.

  \<open>JSON_stringify\<close> is the built-in \<^verbatim>\<open>JSON.stringify(v, null, 2)\<close>, and \<open>roundPercent p r\<close>
  is \<^verbatim>\<open>Math.round((p / r) * 100)\<close>, a floating-point computation; both are parameters.
  So are \<open>toLowerCase\<close>, the built-in of the platform that \<open>str_toLowerCase\<close> falls back
  on, and \<open>nullRecordMessage\<close>, the message of the \<^verbatim>\<open>TypeError\<close> the engine raises
  for \<^verbatim>\<open>arr.subwayId\<close> when \<^verbatim>\<open>arr\<close> is \<^verbatim>\<open>null\<close>.
\<close>

type_synonym 'a fetched = "jsstring + 'a"

datatype json =
    JString jsstring
  | JNumber int
  | JUndefined
  | JArray "json list"
  | JObject "(string \<times> json) list"

record env =
  fetchSubwayArrival :: "int \<Rightarrow> int \<Rightarrow> jsstring \<Rightarrow> SubwayResponse fetched"
  fetchBusArrival :: "jsstring \<Rightarrow> BusResponse fetched"
  fetchBusStops :: "nat \<Rightarrow> nat \<Rightarrow> BusStation list option fetched"
  fetchBikeList :: "nat \<Rightarrow> nat \<Rightarrow> BikeStation list option fetched"
  JSON_stringify :: "json \<Rightarrow> jsstring"
  roundPercent :: "int \<Rightarrow> int \<Rightarrow> int"
  toLowerCase :: "jsstring \<Rightarrow> jsstring"
  nullRecordMessage :: jsstring

text \<open>
  A tool throws where it reads a property outside every \<^verbatim>\<open>try\<close>: of a required
  argument that is missing (\<^verbatim>\<open>args.station_name.replace\<close>, \<^verbatim>\<open>args.query.trim\<close>), and, in
  the combined tool, of a record that is \<^verbatim>\<open>null\<close>.
\<close>

datatype thrown = TypeError

definition jsonOpt :: "jsstring option \<Rightarrow> json" where
  "jsonOpt x = (case x of None \<Rightarrow> JUndefined | Some s \<Rightarrow> JString s)"

section \<open>Constants (lines 77--90)\<close>

definition CHARACTER_LIMIT :: nat where
  "CHARACTER_LIMIT = 25000"

definition SUBWAY_LINE_MAP :: "(jsstring \<times> jsstring) list" where
  "SUBWAY_LINE_MAP =
     [(ascii ''1001'', (ascii ''1'' @ [0xD638, 0xC120])),
      (ascii ''1002'', (ascii ''2'' @ [0xD638, 0xC120])),
      (ascii ''1003'', (ascii ''3'' @ [0xD638, 0xC120])),
      (ascii ''1004'', (ascii ''4'' @ [0xD638, 0xC120])),
      (ascii ''1005'', (ascii ''5'' @ [0xD638, 0xC120])),
      (ascii ''1006'', (ascii ''6'' @ [0xD638, 0xC120])),
      (ascii ''1007'', (ascii ''7'' @ [0xD638, 0xC120])),
      (ascii ''1008'', (ascii ''8'' @ [0xD638, 0xC120])),
      (ascii ''1009'', (ascii ''9'' @ [0xD638, 0xC120])),
      (ascii ''1077'', [0xC2E0, 0xBD84, 0xB2F9, 0xC120]),
      (ascii ''1063'', [0xACBD, 0xC758, 0xC911, 0xC559, 0xC120]),
      (ascii ''1065'', [0xACF5, 0xD56D, 0xCCA0, 0xB3C4])]"

definition BUS_TYPE_MAP :: "(jsstring \<times> jsstring) list" where
  "BUS_TYPE_MAP =
     [(ascii ''1'', [0xC77C, 0xBC18]), (ascii ''2'', [0xC88C, 0xC11D]),
      (ascii ''3'', [0xB9C8, 0xC744]), (ascii ''4'', [0xAD11, 0xC5ED]),
      (ascii ''5'', [0xACF5, 0xD56D]), (ascii ''6'', [0xAC04, 0xC120]),
      (ascii ''7'', [0xC9C0, 0xC120])]"

section \<open>Utility functions (lines 240--254)\<close>

text \<open>
  The two look-ups read a key of an object literal; keys that an object inherits from its
  prototype are not modelled.
\<close>

definition getSubwayLineName :: "jsstring \<Rightarrow> jsstring" where
  "getSubwayLineName lineCode = or_str (map_of SUBWAY_LINE_MAP lineCode) lineCode"

definition getBusTypeName :: "jsstring \<Rightarrow> jsstring" where
  "getBusTypeName typeCode = or_str (map_of BUS_TYPE_MAP typeCode) [0xAE30, 0xD0C0]"

text \<open>
  \<^verbatim>\<open>truncateResponse\<close>. The template literal of its last line is the truncated text
  followed by the notice: two line feeds, \<^verbatim>\<open>... (\<close>, Hangul text, the limit as
  \<^verbatim>\<open>toLocaleString\<close> prints it, and the Hangul rest of the sentence with the closing
  parenthesis.
\<close>

definition truncationNotice :: jsstring where
  "truncationNotice =
     [0x000A, 0x000A] @ ascii ''... ('' @ [0xC751, 0xB2F5, 0xC774] @ ascii '' ''
     @ toLocaleString CHARACTER_LIMIT @ [0xC790] @ ascii '' ''
     @ [0xC81C, 0xD55C, 0xC73C, 0xB85C] @ ascii '' '' @ [0xC798, 0xB838, 0xC2B5, 0xB2C8, 0xB2E4]
     @ ascii '')''"

definition truncateResponse :: "jsstring \<Rightarrow> jsstring" where
  "truncateResponse content =
     (if length content \<le> CHARACTER_LIMIT then content
      else (let truncated = take (CHARACTER_LIMIT - 100) content
            in truncated @ truncationNotice))"

section \<open>Argument handling shared by the tools\<close>

text \<open>
  \<^verbatim>\<open>Math.min(args.limit || 10, 20)\<close> (lines 279, 354, 412, 489): a missing limit and the
  limit 0 are falsy and give 10.
\<close>

definition limitOf :: "ToolArguments \<Rightarrow> int" where
  "limitOf args = min (case limit args of None \<Rightarrow> 10 | Some n \<Rightarrow> if n = 0 then 10 else n) 20"

text \<open>\<^verbatim>\<open>args.response_format || "markdown"\<close>.\<close>

definition formatOf :: "ToolArguments \<Rightarrow> jsstring" where
  "formatOf args = or_str (response_format args) (ascii ''markdown'')"

text \<open>
  \<^verbatim>\<open>name.replace(/\<close>U+C5ED\<^verbatim>\<open>$/u, "").trim()\<close> (lines 278 and 555). Without the \<^verbatim>\<open>m\<close>
  flag \<^verbatim>\<open>$\<close> matches at the end of the input only, so the one possible match is the last
  code unit.
\<close>

definition endsWithStationSuffix :: "jsstring \<Rightarrow> bool" where
  "endsWithStationSuffix s = (s \<noteq> [] \<and> last s = 0xC5ED)"

definition stripStationSuffix :: "jsstring \<Rightarrow> jsstring" where
  "stripStationSuffix s = (if endsWithStationSuffix s then butlast s else s)"

definition normalizeStationName :: "jsstring \<Rightarrow> jsstring" where
  "normalizeStationName s = str_trim (stripStationSuffix s)"

section \<open>transitGetSubwayArrival (lines 273--325)\<close>

text \<open>
  The body of the \<^verbatim>\<open>try\<close> up to \<^verbatim>\<open>arrivals\<close> (lines 283--291): the request carries the
  range \<^verbatim>\<open>0/${limit}\<close> and the station; a body whose embedded status has a code other
  than \<^verbatim>\<open>INFO-000\<close> is thrown as an error. Either form of the answer then reads
  \<^verbatim>\<open>arr.subwayId\<close> of every record (lines 297--298 and 314--315), still inside the
  \<^verbatim>\<open>try\<close>: a record that is \<^verbatim>\<open>null\<close> makes that throw, so the look-up ends in the
  error of the engine and the \<^verbatim>\<open>catch\<close> answers.
\<close>

definition subwayApiError :: "SubwayResponse \<Rightarrow> jsstring option" where
  "subwayApiError data =
     (case errorMessage data of
        None \<Rightarrow> None
      | Some em \<Rightarrow>
          (case code em of
             None \<Rightarrow> None
           | Some c \<Rightarrow>
               if c \<noteq> [] \<and> c \<noteq> ascii ''INFO-000''
               then Some (ascii ''API '' @ [0xC5D0, 0xB7EC] @ ascii '': '' @ tpl (message em))
               else None))"

definition subwayArrivals :: "env \<Rightarrow> int \<Rightarrow> jsstring \<Rightarrow> jsstring + SubwayArrival list" where
  "subwayArrivals e lim station =
     (case fetchSubwayArrival e 0 lim station of
        Inl msg \<Rightarrow> Inl msg
      | Inr data \<Rightarrow>
          (case subwayApiError data of
             Some msg \<Rightarrow> Inl msg
           | None \<Rightarrow>
               (case those (case realtimeArrivalList data of None \<Rightarrow> [] | Some l \<Rightarrow> l) of
                  None \<Rightarrow> Inl (nullRecordMessage e)
                | Some arrivals \<Rightarrow> Inr arrivals)))"

text \<open>The object of lines 294--304.\<close>

definition subwayJson :: "jsstring \<Rightarrow> SubwayArrival list \<Rightarrow> json" where
  "subwayJson station arrivals =
     JObject
       [(''station'', JString station),
        (''count'', JNumber (int (length arrivals))),
        (''arrivals'',
           JArray (map (\<lambda>arr. JObject
             [(''line'', JString (getSubwayLineName (subwayId arr))),
              (''destination'', JString (bstatnNm arr)),
              (''message'', JString (arvlMsg2 arr)),
              (''direction'', JString (updnLine arr)),
              (''trainNumber'', jsonOpt (btrainNo arr))]) arrivals))]"

text \<open>The text of line 308 and the text composed by lines 311--319.\<close>

definition subwayEmpty :: "jsstring \<Rightarrow> jsstring" where
  "subwayEmpty station =
     ascii ''## '' @ [0xD83D, 0xDE87] @ ascii '' '' @ station @ [0xC5ED] @ ascii '' ''
     @ [0xB3C4, 0xCC29, 0xC815, 0xBCF4, 0x000A, 0x000A, 0xD604, 0xC7AC] @ ascii '' ''
     @ [0xB3C4, 0xCC29] @ ascii '' '' @ [0xC608, 0xC815] @ ascii '' ''
     @ [0xC5F4, 0xCC28, 0xAC00] @ ascii '' '' @ [0xC5C6, 0xC2B5, 0xB2C8, 0xB2E4] @ ascii ''.''"

definition subwayEntry :: "nat \<Rightarrow> SubwayArrival \<Rightarrow> jsstring" where
  "subwayEntry idx arr =
     (let lineName = getSubwayLineName (subwayId arr);
          direction = (if updnLine arr = [0xC0C1, 0xD589]
                       then ([0x2B06, 0xFE0F] @ ascii '' '' @ [0xC0C1, 0xD589])
                       else ([0x2B07, 0xFE0F] @ ascii '' '' @ [0xD558, 0xD589]))
      in
      ascii ''### '' @ numToString (idx + 1) @ ascii ''. '' @ lineName @ ascii '' - ''
      @ bstatnNm arr @ [0xD589, 0x000A]
      @ ascii ''- **'' @ [0xB3C4, 0xCC29] @ ascii ''**: '' @ arvlMsg2 arr @ [0x000A]
      @ ascii ''- **'' @ [0xBC29, 0xD5A5] @ ascii ''**: '' @ direction @ [0x000A, 0x000A])"

definition subwayHeading :: "jsstring \<Rightarrow> nat \<Rightarrow> jsstring" where
  "subwayHeading station n =
     ascii ''## '' @ [0xD83D, 0xDE87] @ ascii '' '' @ station @ [0xC5ED] @ ascii '' ''
     @ [0xC2E4, 0xC2DC, 0xAC04] @ ascii '' '' @ [0xB3C4, 0xCC29, 0xC815, 0xBCF4, 0x000A, 0x000A]
     @ ascii ''> '' @ [0xCD1D] @ ascii '' '' @ numToString n @ [0xAC1C, 0xC758] @ ascii '' ''
       @ [0xC5F4, 0xCC28] @ ascii '' '' @ [0xC815, 0xBCF4, 0x000A, 0x000A]"

definition subwayMarkdown :: "jsstring \<Rightarrow> SubwayArrival list \<Rightarrow> jsstring" where
  "subwayMarkdown station arrivals =
     subwayHeading station (length arrivals)
     @ concat (map (\<lambda>(idx, arr). subwayEntry idx arr) (enumerate 0 arrivals))"

definition subwayFailure :: "jsstring \<Rightarrow> jsstring" where
  "subwayFailure msg =
     [0x274C] @ ascii '' '' @ [0xC9C0, 0xD558, 0xCCA0] @ ascii '' '' @ [0xC815, 0xBCF4]
     @ ascii '' '' @ [0xC870, 0xD68C] @ ascii '' '' @ [0xC2E4, 0xD328] @ ascii '': '' @ msg"

definition transitGetSubwayArrival :: "env \<Rightarrow> ToolArguments \<Rightarrow> thrown + jsstring" where
  "transitGetSubwayArrival e args =
     (case station_name args of
        None \<Rightarrow> Inl TypeError
      | Some name \<Rightarrow>
          (let stationName = normalizeStationName name;
               limit = limitOf args;
               format = formatOf args
           in Inr (case subwayArrivals e limit stationName of
                     Inl msg \<Rightarrow> subwayFailure msg
                   | Inr arrivals \<Rightarrow>
                       if format = ascii ''json''
                       then JSON_stringify e (subwayJson stationName arrivals)
                       else if arrivals = [] then subwayEmpty stationName
                       else truncateResponse (subwayMarkdown stationName arrivals))))"

section \<open>transitGetSubwayStatus (lines 327--346)\<close>

definition statusTitle :: "ToolArguments \<Rightarrow> jsstring" where
  "statusTitle args =
     (let lineFilter =
            (case line args of
               None \<Rightarrow> None
             | Some l \<Rightarrow> if l = [] then None else Some (l @ [0xD638, 0xC120]))
      in or_str lineFilter ([0xC804, 0xCCB4] @ ascii '' '' @ [0xD638, 0xC120]))"

definition subwayStatusJson :: "jsstring \<Rightarrow> json" where
  "subwayStatusJson title =
     JObject
       [(''filter'', JString title),
        (''status'', JString ([0xC815, 0xC0C1] @ ascii '' '' @ [0xC6B4, 0xD589] @ ascii '' ''
                              @ [0xC911])),
        (''message'', JString
           ([0xC2E4, 0xC2DC, 0xAC04] @ ascii '' '' @ [0xC6B4, 0xD589, 0xC7A5, 0xC560]
            @ ascii '' '' @ [0xC815, 0xBCF4, 0xB294] @ ascii '' ''
            @ [0xC11C, 0xC6B8, 0xAD50, 0xD1B5, 0xACF5, 0xC0AC] @ ascii '' ''
            @ [0xACF5, 0xC9C0, 0xC0AC, 0xD56D, 0xC744] @ ascii '' ''
            @ [0xD655, 0xC778, 0xD574, 0xC8FC, 0xC138, 0xC694] @ ascii ''.''))]"

definition subwayStatusText :: "jsstring \<Rightarrow> jsstring" where
  "subwayStatusText title =
     ascii ''## '' @ [0xD83D, 0xDE87] @ ascii '' '' @ [0xC9C0, 0xD558, 0xCCA0] @ ascii '' ''
     @ [0xC6B4, 0xD589, 0xC0C1, 0xD0DC] @ ascii '' ('' @ title @ ascii '')''
     @ [0x000A, 0x000A, 0x2705] @ ascii '' '' @ [0xC815, 0xC0C1] @ ascii '' ''
     @ [0xC6B4, 0xD589] @ ascii '' '' @ [0xC911, 0x000A, 0x000A, 0x203B] @ ascii '' ''
     @ [0xC2E4, 0xC2DC, 0xAC04] @ ascii '' '' @ [0xC6B4, 0xD589, 0xC7A5, 0xC560] @ ascii '' ''
     @ [0xC815, 0xBCF4, 0xB294] @ ascii '' '' @ [0xC11C, 0xC6B8, 0xAD50, 0xD1B5, 0xACF5, 0xC0AC]
     @ ascii '' '' @ [0xACF5, 0xC9C0, 0xC0AC, 0xD56D, 0xC744] @ ascii '' ''
     @ [0xD655, 0xC778, 0xD574, 0xC8FC, 0xC138, 0xC694] @ ascii ''.''"

definition transitGetSubwayStatus :: "env \<Rightarrow> ToolArguments \<Rightarrow> thrown + jsstring" where
  "transitGetSubwayStatus e args =
     (let format = formatOf args;
          title = statusTitle args
      in Inr (if format = ascii ''json''
              then JSON_stringify e (subwayStatusJson title)
              else subwayStatusText title))"

section \<open>transitGetBusArrival (lines 348--404)\<close>

text \<open>
  \<^verbatim>\<open>args.ars_id\<close> is only read, so a missing identifier does not throw: it is the text
  \<^verbatim>\<open>undefined\<close> in the request and in the answer. The body of the \<^verbatim>\<open>try\<close> up to
  \<^verbatim>\<open>arrivals\<close> (lines 359--368) throws unless the header code of the body is \<^verbatim>\<open>"0"\<close>.
\<close>

definition busArrivals :: "env \<Rightarrow> jsstring \<Rightarrow> jsstring + BusArrival list" where
  "busArrivals e stop =
     (case fetchBusArrival e stop of
        Inl msg \<Rightarrow> Inl msg
      | Inr data \<Rightarrow>
          if (case msgHeader data of None \<Rightarrow> True | Some h \<Rightarrow> headerCd h \<noteq> Some (ascii ''0''))
          then Inl (or_str (case msgHeader data of None \<Rightarrow> None | Some h \<Rightarrow> headerMsg h)
                           (ascii ''API '' @ [0xC624, 0xB958]))
          else Inr (case msgBody_itemList data of None \<Rightarrow> [] | Some l \<Rightarrow> l))"

text \<open>\<^verbatim>\<open>arrivals[0]?.stNm || "..."\<close> (lines 372 and 389).\<close>

definition busStationName :: "BusArrival list \<Rightarrow> jsstring" where
  "busStationName arrivals =
     or_str (case arrivals of [] \<Rightarrow> None | a # rest \<Rightarrow> Some (stNm a))
       ([0xC54C] @ ascii '' '' @ [0xC218] @ ascii '' '' @ [0xC5C6, 0xC74C])"

text \<open>The object of lines 371--382.\<close>

definition busJson :: "jsstring option \<Rightarrow> int \<Rightarrow> BusArrival list \<Rightarrow> json" where
  "busJson stop lim arrivals =
     JObject
       [(''stationName'', JString (busStationName arrivals)),
        (''arsId'', jsonOpt stop),
        (''count'', JNumber (int (length arrivals))),
        (''arrivals'',
           JArray (map (\<lambda>bus. JObject
             [(''routeName'', JString (rtNm bus)),
              (''routeAbbr'', jsonOpt (busRouteAbrv bus)),
              (''arrival1'', JString (arrmsg1 bus)),
              (''arrival2'', JString (arrmsg2 bus)),
              (''routeType'', JString (getBusTypeName (or_str (routeType bus) (ascii ''1''))))])
             (slice0 lim arrivals)))]"

text \<open>The text of line 386 and the text composed by lines 389--398.\<close>

definition busEmpty :: "jsstring option \<Rightarrow> jsstring" where
  "busEmpty stop =
     ascii ''## '' @ [0xD83D, 0xDE8C] @ ascii '' '' @ [0xBC84, 0xC2A4] @ ascii '' ''
     @ [0xB3C4, 0xCC29, 0xC815, 0xBCF4] @ ascii '' ('' @ [0xC815, 0xB958, 0xC7A5] @ ascii '': ''
     @ tpl stop @ ascii '')'' @ [0x000A, 0x000A, 0xD604, 0xC7AC] @ ascii '' ''
     @ [0xB3C4, 0xCC29] @ ascii '' '' @ [0xC608, 0xC815] @ ascii '' ''
     @ [0xBC84, 0xC2A4, 0xAC00] @ ascii '' '' @ [0xC5C6, 0xC2B5, 0xB2C8, 0xB2E4] @ ascii ''.''"

definition busEntry :: "nat \<Rightarrow> BusArrival \<Rightarrow> jsstring" where
  "busEntry idx bus =
     (let busType = getBusTypeName (or_str (routeType bus) (ascii ''1'')) in
      ascii ''### '' @ numToString (idx + 1) @ ascii ''. '' @ rtNm bus @ ascii '' ('' @ busType
      @ ascii '')'' @ [0x000A]
      @ ascii ''- **'' @ [0xCCAB, 0xBC88, 0xC9F8] @ ascii '' '' @ [0xBC84, 0xC2A4]
        @ ascii ''**: '' @ arrmsg1 bus @ [0x000A]
      @ ascii ''- **'' @ [0xB450, 0xBC88, 0xC9F8] @ ascii '' '' @ [0xBC84, 0xC2A4]
        @ ascii ''**: '' @ arrmsg2 bus @ [0x000A, 0x000A])"

definition busHeading :: "jsstring option \<Rightarrow> BusArrival list \<Rightarrow> jsstring" where
  "busHeading stop arrivals =
     (let stationName = busStationName arrivals in
      ascii ''## '' @ [0xD83D, 0xDE8C] @ ascii '' '' @ stationName @ ascii '' ''
      @ [0xBC84, 0xC2A4] @ ascii '' '' @ [0xB3C4, 0xCC29, 0xC815, 0xBCF4, 0x000A, 0x000A]
      @ ascii ''> '' @ [0xC815, 0xB958, 0xC7A5] @ ascii '' '' @ [0xBC88, 0xD638] @ ascii '': ''
        @ tpl stop @ ascii '' | '' @ numToString (length arrivals) @ [0xAC1C] @ ascii '' ''
        @ [0xB178, 0xC120, 0x000A, 0x000A])"

definition busMarkdown :: "jsstring option \<Rightarrow> int \<Rightarrow> BusArrival list \<Rightarrow> jsstring" where
  "busMarkdown stop lim arrivals =
     busHeading stop arrivals
     @ concat (map (\<lambda>(idx, bus). busEntry idx bus) (enumerate 0 (slice0 lim arrivals)))"

definition busFailure :: "jsstring \<Rightarrow> jsstring" where
  "busFailure msg =
     [0x274C] @ ascii '' '' @ [0xBC84, 0xC2A4] @ ascii '' '' @ [0xB3C4, 0xCC29, 0xC815, 0xBCF4]
     @ ascii '' '' @ [0xC870, 0xD68C] @ ascii '' '' @ [0xC2E4, 0xD328] @ ascii '': '' @ msg
     @ [0x000A, 0x000A, 0xD83D, 0xDCA1] @ ascii '' '' @ [0xC815, 0xB958, 0xC7A5] @ ascii '' ''
     @ [0xBC88, 0xD638, 0xAC00] @ ascii '' '' @ [0xC62C, 0xBC14, 0xB978, 0xC9C0] @ ascii '' ''
     @ [0xD655, 0xC778, 0xD574] @ ascii '' '' @ [0xC8FC, 0xC138, 0xC694] @ ascii ''.''"

definition transitGetBusArrival :: "env \<Rightarrow> ToolArguments \<Rightarrow> thrown + jsstring" where
  "transitGetBusArrival e args =
     (let arsId = ars_id args;
          limit = limitOf args;
          format = formatOf args
      in Inr (case busArrivals e (tpl arsId) of
                Inl msg \<Rightarrow> busFailure msg
              | Inr arrivals \<Rightarrow>
                  if format = ascii ''json''
                  then JSON_stringify e (busJson arsId limit arrivals)
                  else if arrivals = [] then busEmpty arsId
                  else truncateResponse (busMarkdown arsId limit arrivals)))"

section \<open>Sorting an array\<close>

text \<open>
  \<^verbatim>\<open>xs.sort(cmp)\<close>. \<^verbatim>\<open>Array.prototype.sort\<close> is stable (ECMAScript 2019); for a
  comparator that is consistent its result is the one stable sorted arrangement, which
  insertion from the right computes: an element goes before the first later element that
  it does not follow.
\<close>

fun insertSorted :: "('a \<Rightarrow> 'a \<Rightarrow> int) \<Rightarrow> 'a \<Rightarrow> 'a list \<Rightarrow> 'a list" where
  "insertSorted cmp x [] = [x]"
| "insertSorted cmp x (y # ys) = (if cmp x y \<le> 0 then x # y # ys else y # insertSorted cmp x ys)"

definition array_sort :: "('a \<Rightarrow> 'a \<Rightarrow> int) \<Rightarrow> 'a list \<Rightarrow> 'a list" where
  "array_sort cmp xs = foldr (insertSorted cmp) xs []"

section \<open>transitSearchBusStation (lines 406--481)\<close>

definition pageSize :: nat where
  "pageSize = 1000"

text \<open>The index range of a page (lines 420--421 and 497--498).\<close>

definition pageRequest :: "nat \<Rightarrow> nat \<times> nat" where
  "pageRequest page = ((page - 1) * pageSize + 1, page * pageSize)"

text \<open>One page of the stop directory, \<^verbatim>\<open>rows\<close> of lines 422--426.\<close>

definition fetchStopPage :: "env \<Rightarrow> nat \<Rightarrow> jsstring + BusStation list" where
  "fetchStopPage e page =
     (case fetchBusStops e (fst (pageRequest page)) (snd (pageRequest page)) of
        Inl msg \<Rightarrow> Inl msg
      | Inr data \<Rightarrow> Inr (case data of None \<Rightarrow> [] | Some rows \<Rightarrow> rows))"

text \<open>The predicate of lines 428--430.\<close>

definition stopMatches :: "jsstring \<Rightarrow> BusStation \<Rightarrow> bool" where
  "stopMatches q s =
     ((case STOPS_NM s of None \<Rightarrow> False | Some n \<Rightarrow> str_includes n q) \<or> STOPS_NO s = q)"

text \<open>
  The loop of lines 419--434. Besides \<^verbatim>\<open>results\<close> it carries the requests issued so
  far, the index range of each, and returns them with the outcome: the matches, or the
  text of the error that left the loop.
\<close>

function scanBusStops ::
  "env \<Rightarrow> jsstring \<Rightarrow> int \<Rightarrow> nat \<Rightarrow> BusStation list \<Rightarrow> (nat \<times> nat) list
     \<Rightarrow> (nat \<times> nat) list \<times> (jsstring + BusStation list)" where
  "scanBusStops e q lim page results requests =
     (if page \<le> 5 then
        (case fetchStopPage e page of
           Inl msg \<Rightarrow> (requests @ [pageRequest page], Inl msg)
         | Inr rows \<Rightarrow>
             if lim * 3 \<le> int (length (results @ filter (stopMatches q) rows))
                \<or> length rows < pageSize
             then (requests @ [pageRequest page], Inr (results @ filter (stopMatches q) rows))
             else scanBusStops e q lim (page + 1) (results @ filter (stopMatches q) rows)
                    (requests @ [pageRequest page]))
      else (requests, Inr results))"
  by pat_completeness auto
termination
  by (relation "measure (\<lambda>(e, q, lim, page, results, requests). 6 - page)") auto

declare scanBusStops.simps [simp del]

text \<open>The comparator of lines 437--447.\<close>

definition compareStations :: "jsstring \<Rightarrow> BusStation \<Rightarrow> BusStation \<Rightarrow> int" where
  "compareStations q a b =
     (let aName = or_str (STOPS_NM a) [];
          bName = or_str (STOPS_NM b) [];
          aStarts = str_startsWith aName q;
          bStarts = str_startsWith bName q
      in if aStarts \<and> \<not> bStarts then - 1
         else if \<not> aStarts \<and> bStarts then 1
         else int (length aName) - int (length bName))"

text \<open>The object of lines 452--460.\<close>

definition stopSearchJson :: "jsstring \<Rightarrow> BusStation list \<Rightarrow> json" where
  "stopSearchJson q stations =
     JObject
       [(''query'', JString q),
        (''count'', JNumber (int (length stations))),
        (''stations'',
           JArray (map (\<lambda>s. JObject
             [(''name'', jsonOpt (STOPS_NM s)),
              (''arsId'', JString (STOPS_NO s)),
              (''type'', JString (or_str (STOPS_TYPE s) [0xC77C, 0xBC18]))]) stations))]"

text \<open>The text of line 464 and the text composed by lines 467--475.\<close>

definition stopSearchEmpty :: "jsstring \<Rightarrow> jsstring" where
  "stopSearchEmpty q =
     ascii ''## '' @ [0xD83D, 0xDD0D] @ ascii '' '' @ [0xBC84, 0xC2A4] @ ascii '' ''
     @ [0xC815, 0xB958, 0xC7A5] @ ascii '' '' @ [0xAC80, 0xC0C9] @ ascii '': '' @ [0x0022] @ q
     @ [0x0022, 0x000A, 0x000A, 0xAC80, 0xC0C9] @ ascii '' '' @ [0xACB0, 0xACFC, 0xAC00]
     @ ascii '' '' @ [0xC5C6, 0xC2B5, 0xB2C8, 0xB2E4] @ ascii ''.''"

definition stopSearchEntry :: "nat \<Rightarrow> BusStation \<Rightarrow> jsstring" where
  "stopSearchEntry idx s =
     ascii ''### '' @ numToString (idx + 1) @ ascii ''. '' @ tpl (STOPS_NM s) @ [0x000A]
     @ ascii ''- **'' @ [0xC815, 0xB958, 0xC7A5] @ ascii '' '' @ [0xBC88, 0xD638]
       @ ascii ''**: '' @ [0x0060] @ STOPS_NO s @ [0x0060, 0x000A, 0x000A]"

definition stopSearchMarkdown :: "jsstring \<Rightarrow> BusStation list \<Rightarrow> jsstring" where
  "stopSearchMarkdown q stations =
     ascii ''## '' @ [0xD83D, 0xDD0D] @ ascii '' '' @ [0xBC84, 0xC2A4] @ ascii '' ''
     @ [0xC815, 0xB958, 0xC7A5] @ ascii '' '' @ [0xAC80, 0xC0C9] @ ascii '': '' @ [0x0022] @ q
     @ [0x0022, 0x000A, 0x000A]
     @ ascii ''> '' @ numToString (length stations) @ [0xAC1C] @ ascii '' ''
       @ [0xC815, 0xB958, 0xC7A5] @ ascii '' '' @ [0xBC1C, 0xACAC, 0x000A, 0x000A]
     @ concat (map (\<lambda>(idx, s). stopSearchEntry idx s) (enumerate 0 stations))
     @ ascii ''---'' @ [0x000A] @ ascii ''> '' @ [0xD83D, 0xDCA1] @ ascii '' **Tip**: ''
       @ [0xB3C4, 0xCC29, 0xC815, 0xBCF4] @ ascii '' '' @ [0xC870, 0xD68C] @ ascii '' ''
       @ [0xC2DC] @ ascii '' '' @ [0xC815, 0xB958, 0xC7A5] @ ascii '' '' @ [0xBC88, 0xD638]
       @ ascii ''(arsId)'' @ [0xB97C] @ ascii '' '' @ [0xC0AC, 0xC6A9, 0xD558, 0xC138, 0xC694]
       @ ascii ''.'' @ [0x000A]"

definition stopSearchFailure :: "jsstring \<Rightarrow> jsstring" where
  "stopSearchFailure msg =
     [0x274C] @ ascii '' '' @ [0xC815, 0xB958, 0xC7A5] @ ascii '' '' @ [0xAC80, 0xC0C9]
     @ ascii '' '' @ [0xC2E4, 0xD328] @ ascii '': '' @ msg"

text \<open>
  The body of the \<^verbatim>\<open>try\<close> up to \<^verbatim>\<open>stations\<close> (lines 416--449): the loop from page 1
  with no results, the sort and the cut.
\<close>

definition stopSearchStations :: "env \<Rightarrow> jsstring \<Rightarrow> int \<Rightarrow> jsstring + BusStation list" where
  "stopSearchStations e q lim =
     (case snd (scanBusStops e q lim 1 [] []) of
        Inl msg \<Rightarrow> Inl msg
      | Inr results \<Rightarrow>
          (let sortedResults = array_sort (compareStations q) results
           in Inr (slice0 lim sortedResults)))"

definition transitSearchBusStation :: "env \<Rightarrow> ToolArguments \<Rightarrow> thrown + jsstring" where
  "transitSearchBusStation e args =
     (case query args of
        None \<Rightarrow> Inl TypeError
      | Some text \<Rightarrow>
          (let query = str_trim text;
               limit = limitOf args;
               format = formatOf args
           in Inr (case stopSearchStations e query limit of
                     Inl msg \<Rightarrow> stopSearchFailure msg
                   | Inr stations \<Rightarrow>
                       if format = ascii ''json''
                       then JSON_stringify e (stopSearchJson query stations)
                       else if stations = [] then stopSearchEmpty query
                       else truncateResponse (stopSearchMarkdown query stations))))"

section \<open>transitGetBikeStation (lines 483--549)\<close>

text \<open>One page of the bike directory, \<^verbatim>\<open>rows\<close> of lines 499--503.\<close>

definition fetchBikePage :: "env \<Rightarrow> nat \<Rightarrow> jsstring + BikeStation list" where
  "fetchBikePage e page =
     (case fetchBikeList e (fst (pageRequest page)) (snd (pageRequest page)) of
        Inl msg \<Rightarrow> Inl msg
      | Inr data \<Rightarrow> Inr (case data of None \<Rightarrow> [] | Some rows \<Rightarrow> rows))"

text \<open>The predicate of lines 505--507 (and of lines 590--592).\<close>

definition bikeMatches :: "env \<Rightarrow> jsstring \<Rightarrow> BikeStation \<Rightarrow> bool" where
  "bikeMatches e q s =
     (case stationName s of
        None \<Rightarrow> False
      | Some n \<Rightarrow>
          str_includes (str_toLowerCase (toLowerCase e) n) (str_toLowerCase (toLowerCase e) q))"

text \<open>The loop of lines 496--511, with the requests issued as in \<open>scanBusStops\<close>.\<close>

function scanBikeStations ::
  "env \<Rightarrow> jsstring \<Rightarrow> int \<Rightarrow> nat \<Rightarrow> BikeStation list \<Rightarrow> (nat \<times> nat) list
     \<Rightarrow> (nat \<times> nat) list \<times> (jsstring + BikeStation list)" where
  "scanBikeStations e q lim page results requests =
     (if page \<le> 3 then
        (case fetchBikePage e page of
           Inl msg \<Rightarrow> (requests @ [pageRequest page], Inl msg)
         | Inr rows \<Rightarrow>
             if lim * 3 \<le> int (length (results @ filter (bikeMatches e q) rows))
                \<or> length rows < pageSize
             then (requests @ [pageRequest page], Inr (results @ filter (bikeMatches e q) rows))
             else scanBikeStations e q lim (page + 1) (results @ filter (bikeMatches e q) rows)
                    (requests @ [pageRequest page]))
      else (requests, Inr results))"
  by pat_completeness auto
termination
  by (relation "measure (\<lambda>(e, q, lim, page, results, requests). 4 - page)") auto

declare scanBikeStations.simps [simp del]

text \<open>The availability mark of lines 536--539 (and of lines 658--661).\<close>

definition availRate :: "env \<Rightarrow> BikeStation \<Rightarrow> int" where
  "availRate e s =
     (if rackTotCnt s > 0 then roundPercent e (parkingBikeTotCnt s) (rackTotCnt s) else 0)"

definition rateEmoji :: "int \<Rightarrow> jsstring" where
  "rateEmoji rate =
     (if rate \<ge> 50 then [0xD83D, 0xDFE2]
      else if rate \<ge> 20 then [0xD83D, 0xDFE1]
      else [0xD83D, 0xDD34])"

text \<open>The object of lines 516--525.\<close>

definition bikeJson :: "jsstring \<Rightarrow> BikeStation list \<Rightarrow> json" where
  "bikeJson q stations =
     JObject
       [(''query'', JString q),
        (''count'', JNumber (int (length stations))),
        (''stations'',
           JArray (map (\<lambda>s. JObject
             [(''name'', jsonOpt (stationName s)),
              (''id'', JString (stationId s)),
              (''available'', JNumber (parkingBikeTotCnt s)),
              (''rackTotal'', JNumber (rackTotCnt s))]) stations))]"

text \<open>The text of line 529 and the text composed by lines 532--543.\<close>

definition bikeEmpty :: "jsstring \<Rightarrow> jsstring" where
  "bikeEmpty q =
     ascii ''## '' @ [0xD83D, 0xDEB2] @ ascii '' '' @ [0xB530, 0xB989, 0xC774] @ ascii '' ''
     @ [0xB300, 0xC5EC, 0xC18C] @ ascii '' '' @ [0xAC80, 0xC0C9] @ ascii '': '' @ [0x0022] @ q
     @ [0x0022, 0x000A, 0x000A, 0xAC80, 0xC0C9] @ ascii '' '' @ [0xACB0, 0xACFC, 0xAC00]
     @ ascii '' '' @ [0xC5C6, 0xC2B5, 0xB2C8, 0xB2E4] @ ascii ''.''"

definition bikeEntry :: "env \<Rightarrow> nat \<Rightarrow> BikeStation \<Rightarrow> jsstring" where
  "bikeEntry e idx s =
     (let rate = availRate e s;
          emoji = rateEmoji rate
      in ascii ''### '' @ numToString (idx + 1) @ ascii ''. '' @ tpl (stationName s) @ [0x000A]
         @ ascii ''- **'' @ [0xB300, 0xC5EC] @ ascii '' '' @ [0xAC00, 0xB2A5] @ ascii ''**: ''
           @ emoji @ ascii '' '' @ numberToString (parkingBikeTotCnt s) @ [0xB300]
           @ ascii '' / '' @ numberToString (rackTotCnt s) @ [0xB300] @ ascii '' (''
           @ numberToString rate @ ascii ''%)'' @ [0x000A, 0x000A])"

definition bikeMarkdown :: "env \<Rightarrow> jsstring \<Rightarrow> BikeStation list \<Rightarrow> jsstring" where
  "bikeMarkdown e q stations =
     ascii ''## '' @ [0xD83D, 0xDEB2] @ ascii '' '' @ [0xB530, 0xB989, 0xC774] @ ascii '' ''
     @ [0xB300, 0xC5EC, 0xC18C] @ ascii '' '' @ [0xAC80, 0xC0C9] @ ascii '': '' @ [0x0022] @ q
     @ [0x0022, 0x000A, 0x000A]
     @ ascii ''> '' @ numToString (length stations) @ [0xAC1C] @ ascii '' ''
       @ [0xB300, 0xC5EC, 0xC18C] @ ascii '' '' @ [0xBC1C, 0xACAC, 0x000A, 0x000A]
     @ concat (map (\<lambda>(idx, s). bikeEntry e idx s) (enumerate 0 stations))"

definition bikeFailure :: "jsstring \<Rightarrow> jsstring" where
  "bikeFailure msg =
     [0x274C] @ ascii '' '' @ [0xB530, 0xB989, 0xC774] @ ascii '' '' @ [0xB300, 0xC5EC, 0xC18C]
     @ ascii '' '' @ [0xAC80, 0xC0C9] @ ascii '' '' @ [0xC2E4, 0xD328] @ ascii '': '' @ msg"

text \<open>
  The body of the \<^verbatim>\<open>try\<close> up to \<^verbatim>\<open>stations\<close> (lines 493--513): the loop and the cut,
  without a sort.
\<close>

definition bikeSearchStations :: "env \<Rightarrow> jsstring \<Rightarrow> int \<Rightarrow> jsstring + BikeStation list" where
  "bikeSearchStations e q lim =
     (case snd (scanBikeStations e q lim 1 [] []) of
        Inl msg \<Rightarrow> Inl msg
      | Inr results \<Rightarrow> Inr (slice0 lim results))"

definition transitGetBikeStation :: "env \<Rightarrow> ToolArguments \<Rightarrow> thrown + jsstring" where
  "transitGetBikeStation e args =
     (case query args of
        None \<Rightarrow> Inl TypeError
      | Some text \<Rightarrow>
          (let query = str_trim text;
               limit = limitOf args;
               format = formatOf args
           in Inr (case bikeSearchStations e query limit of
                     Inl msg \<Rightarrow> bikeFailure msg
                   | Inr stations \<Rightarrow>
                       if format = ascii ''json''
                       then JSON_stringify e (bikeJson query stations)
                       else if stations = [] then bikeEmpty query
                       else truncateResponse (bikeMarkdown e query stations))))"

section \<open>transitGetCombinedInfo (lines 551--667)\<close>

text \<open>
  The three look-ups (lines 563--570, 573--582 and 585--596). Each is a \<^verbatim>\<open>try\<close> whose
  \<^verbatim>\<open>catch\<close> is empty, so a failure leaves the list of the source empty. The subway
  look-up copies the records without reading them; the other two read the name of every
  record inside the \<^verbatim>\<open>try\<close>.
\<close>

definition combinedSubway :: "env \<Rightarrow> jsstring \<Rightarrow> SubwayArrival option list" where
  "combinedSubway e loc =
     (case fetchSubwayArrival e 0 5 loc of
        Inl msg \<Rightarrow> []
      | Inr data \<Rightarrow> (case realtimeArrivalList data of None \<Rightarrow> [] | Some l \<Rightarrow> l))"

definition combinedBusStations :: "env \<Rightarrow> jsstring \<Rightarrow> BusStation list" where
  "combinedBusStations e loc =
     (case fetchBusStops e 1 100 of
        Inl msg \<Rightarrow> []
      | Inr data \<Rightarrow>
          slice0 3 (filter (\<lambda>s. case STOPS_NM s of None \<Rightarrow> False | Some n \<Rightarrow> str_includes n loc)
                      (case data of None \<Rightarrow> [] | Some rows \<Rightarrow> rows)))"

definition combinedBikeStations :: "env \<Rightarrow> jsstring \<Rightarrow> BikeStation list" where
  "combinedBikeStations e loc =
     (case fetchBikeList e 1 1000 of
        Inl msg \<Rightarrow> []
      | Inr data \<Rightarrow>
          slice0 3 (filter (bikeMatches e loc) (case data of None \<Rightarrow> [] | Some rows \<Rightarrow> rows)))"

text \<open>
  Both forms of the answer render \<^verbatim>\<open>subwayData.slice(0, 5)\<close> and read \<^verbatim>\<open>arr.subwayId\<close>
  of each of these records (lines 603--604 and 634--635), outside every \<^verbatim>\<open>try\<close>: if
  one of them is \<^verbatim>\<open>null\<close> the tool throws. \<open>shownArrivals\<close> is the records rendered,
  when none of them is \<^verbatim>\<open>null\<close>; it is empty exactly when \<^verbatim>\<open>subwayData\<close> is.
\<close>

definition shownArrivals :: "SubwayArrival option list \<Rightarrow> SubwayArrival list option" where
  "shownArrivals subwayData = those (slice0 5 subwayData)"

text \<open>
  The object of lines 599--624, for the number of subway records and the records
  rendered.
\<close>

definition combinedJson ::
  "jsstring \<Rightarrow> nat \<Rightarrow> SubwayArrival list \<Rightarrow> BusStation list \<Rightarrow> BikeStation list \<Rightarrow> json" where
  "combinedJson place subwayCount shown busStations bikeStations =
     JObject
       [(''location'', JString place),
        (''subway'', JObject
           [(''count'', JNumber (int subwayCount)),
            (''arrivals'',
               JArray (map (\<lambda>arr. JObject
                 [(''line'', JString (getSubwayLineName (subwayId arr))),
                  (''destination'', JString (bstatnNm arr)),
                  (''message'', JString (arvlMsg2 arr))]) shown))]),
        (''bus'', JObject
           [(''count'', JNumber (int (length busStations))),
            (''stations'',
               JArray (map (\<lambda>s. JObject
                 [(''name'', jsonOpt (STOPS_NM s)),
                  (''arsId'', JString (STOPS_NO s))]) busStations))]),
        (''bike'', JObject
           [(''count'', JNumber (int (length bikeStations))),
            (''stations'',
               JArray (map (\<lambda>s. JObject
                 [(''name'', jsonOpt (stationName s)),
                  (''available'', JNumber (parkingBikeTotCnt s)),
                  (''total'', JNumber (rackTotCnt s))]) bikeStations))])]"

text \<open>
  The text composed by lines 627--664: a heading and one section per source, each with a
  title and either the fixed message of the empty source or one line per record.
\<close>

definition combinedHeading :: "jsstring \<Rightarrow> jsstring" where
  "combinedHeading place =
     ascii ''# '' @ [0xD83D, 0xDCCD] @ ascii '' '' @ place @ ascii '' '' @ [0xC8FC, 0xBCC0]
     @ ascii '' '' @ [0xAD50, 0xD1B5, 0xC815, 0xBCF4, 0x000A, 0x000A]"

definition subwayEmptyMessage :: jsstring where
  "subwayEmptyMessage =
     [0xC8FC, 0xBCC0] @ ascii '' '' @ [0xC9C0, 0xD558, 0xCCA0, 0xC5ED] @ ascii '' ''
     @ [0xC815, 0xBCF4, 0xAC00] @ ascii '' '' @ [0xC5C6, 0xC2B5, 0xB2C8, 0xB2E4] @ ascii ''.''
     @ [0x000A, 0x000A]"

definition busEmptyMessage :: jsstring where
  "busEmptyMessage =
     [0xC8FC, 0xBCC0] @ ascii '' '' @ [0xBC84, 0xC2A4] @ ascii '' '' @ [0xC815, 0xB958, 0xC7A5]
     @ ascii '' '' @ [0xC815, 0xBCF4, 0xAC00] @ ascii '' '' @ [0xC5C6, 0xC2B5, 0xB2C8, 0xB2E4]
     @ ascii ''.'' @ [0x000A, 0x000A]"

definition bikeEmptyMessage :: jsstring where
  "bikeEmptyMessage =
     [0xC8FC, 0xBCC0] @ ascii '' '' @ [0xB530, 0xB989, 0xC774] @ ascii '' ''
     @ [0xB300, 0xC5EC, 0xC18C] @ ascii '' '' @ [0xC815, 0xBCF4, 0xAC00] @ ascii '' ''
     @ [0xC5C6, 0xC2B5, 0xB2C8, 0xB2E4] @ ascii ''.'' @ [0x000A]"

definition combinedSubwayLine :: "SubwayArrival \<Rightarrow> jsstring" where
  "combinedSubwayLine arr =
     (let lineName = getSubwayLineName (subwayId arr) in
      ascii ''- **'' @ lineName @ ascii ''** '' @ bstatnNm arr @ [0xD589] @ ascii '': ''
      @ arvlMsg2 arr @ [0x000A])"

definition combinedBusLine :: "BusStation \<Rightarrow> jsstring" where
  "combinedBusLine s =
     ascii ''- **'' @ tpl (STOPS_NM s) @ ascii ''** ('' @ STOPS_NO s @ ascii '')'' @ [0x000A]"

definition combinedBikeLine :: "env \<Rightarrow> BikeStation \<Rightarrow> jsstring" where
  "combinedBikeLine e s =
     (let emoji = rateEmoji (availRate e s) in
      ascii ''- **'' @ tpl (stationName s) @ ascii ''**: '' @ emoji @ ascii '' ''
      @ numberToString (parkingBikeTotCnt s) @ [0xB300] @ ascii '' ''
      @ [0xC774, 0xC6A9, 0xAC00, 0xB2A5, 0x000A])"

definition combinedSubwaySection :: "SubwayArrival list \<Rightarrow> jsstring" where
  "combinedSubwaySection shown =
     ascii ''## '' @ [0xD83D, 0xDE87] @ ascii '' '' @ [0xC9C0, 0xD558, 0xCCA0] @ ascii '' ''
     @ [0xB3C4, 0xCC29, 0xC815, 0xBCF4, 0x000A, 0x000A]
     @ (if shown = [] then subwayEmptyMessage
        else concat (map combinedSubwayLine shown) @ [0x000A])"

definition combinedBusSection :: "BusStation list \<Rightarrow> jsstring" where
  "combinedBusSection busStations =
     ascii ''## '' @ [0xD83D, 0xDE8C] @ ascii '' '' @ [0xBC84, 0xC2A4] @ ascii '' ''
     @ [0xC815, 0xB958, 0xC7A5, 0x000A, 0x000A]
     @ (if busStations = [] then busEmptyMessage
        else concat (map combinedBusLine busStations) @ [0x000A])"

definition combinedBikeSection :: "env \<Rightarrow> BikeStation list \<Rightarrow> jsstring" where
  "combinedBikeSection e bikeStations =
     ascii ''## '' @ [0xD83D, 0xDEB2] @ ascii '' '' @ [0xB530, 0xB989, 0xC774] @ ascii '' ''
     @ [0xB300, 0xC5EC, 0xC18C, 0x000A, 0x000A]
     @ (if bikeStations = [] then bikeEmptyMessage
        else concat (map (combinedBikeLine e) bikeStations))"

definition combinedMarkdown ::
  "env \<Rightarrow> jsstring \<Rightarrow> SubwayArrival list \<Rightarrow> BusStation list \<Rightarrow> BikeStation list \<Rightarrow> jsstring" where
  "combinedMarkdown e place shown busStations bikeStations =
     combinedHeading place
     @ combinedSubwaySection shown
     @ combinedBusSection busStations
     @ combinedBikeSection e bikeStations"

definition transitGetCombinedInfo :: "env \<Rightarrow> ToolArguments \<Rightarrow> thrown + jsstring" where
  "transitGetCombinedInfo e args =
     (case location args of
        None \<Rightarrow> Inl TypeError
      | Some place \<Rightarrow>
          (let location = normalizeStationName place;
               format = formatOf args;
               subwayData = combinedSubway e location;
               busStations = combinedBusStations e location;
               bikeStations = combinedBikeStations e location
           in case shownArrivals subwayData of
                None \<Rightarrow> Inl TypeError
              | Some shown \<Rightarrow>
                  Inr (if format = ascii ''json''
                       then JSON_stringify e
                              (combinedJson place (length subwayData) shown busStations
                                 bikeStations)
                       else truncateResponse
                              (combinedMarkdown e place shown busStations bikeStations))))"
section \<open>Notions used to state the properties\<close>

text \<open>A string is trimmed when neither end is white space.\<close>

definition trimmed :: "jsstring \<Rightarrow> bool" where
  "trimmed t = (t = [] \<or> (\<not> isWhiteSpace (hd t) \<and> \<not> isWhiteSpace (last t)))"

text \<open>
  The requests the stop search issues: those of its loop, started at page 1 with no
  results (the loop's outcome is \<open>snd\<close> of the same call, in \<open>stopSearchStations\<close>).
\<close>

definition scanRequests :: "env \<Rightarrow> jsstring \<Rightarrow> int \<Rightarrow> (nat \<times> nat) list" where
  "scanRequests e q lim = fst (scanBusStops e q lim 1 [] [])"

text \<open>
  What the directory answers for a page (no records when the fetch fails), the matches of
  the pages 1 to \<open>page\<close>, and the two conditions that end the scan, after \<open>page\<close>.
\<close>

definition pageRows :: "env \<Rightarrow> nat \<Rightarrow> BusStation list" where
  "pageRows e page = (case fetchStopPage e page of Inl msg \<Rightarrow> [] | Inr rows \<Rightarrow> rows)"

definition accumulatedMatches :: "env \<Rightarrow> jsstring \<Rightarrow> nat \<Rightarrow> BusStation list" where
  "accumulatedMatches e q page =
     concat (map (\<lambda>i. filter (stopMatches q) (pageRows e i)) [1..<Suc page])"

definition stopCondition :: "env \<Rightarrow> jsstring \<Rightarrow> int \<Rightarrow> nat \<Rightarrow> bool" where
  "stopCondition e q lim page =
     (lim * 3 \<le> int (length (accumulatedMatches e q page)) \<or> length (pageRows e page) < pageSize)"

text \<open>
  The ranking of the specification: the name of a stop (the empty string when it has
  none), its key (whether the name fails to start with the query, then the length of the
  name; pairs are ordered lexicographically and \<open>False\<close> comes before \<open>True\<close>), and
  the order the key induces, written out.
\<close>

definition stopName :: "BusStation \<Rightarrow> jsstring" where
  "stopName s = or_str (STOPS_NM s) []"

definition rankKey :: "jsstring \<Rightarrow> BusStation \<Rightarrow> bool \<times> nat" where
  "rankKey q s = (\<not> str_startsWith (stopName s) q, length (stopName s))"

definition ranksBefore :: "jsstring \<Rightarrow> BusStation \<Rightarrow> BusStation \<Rightarrow> bool" where
  "ranksBefore q a b =
     ((str_startsWith (stopName a) q \<and> \<not> str_startsWith (stopName b) q) \<or>
      (str_startsWith (stopName a) q = str_startsWith (stopName b) q \<and>
       length (stopName a) \<le> length (stopName b)))"

text \<open>
  Containment up to letter case, for strings of Basic Latin and Hangul units: some
  substring of \<open>s\<close> agrees with \<open>q\<close> unit by unit, up to the case of the letters
  \<^verbatim>\<open>A\<close> to \<^verbatim>\<open>Z\<close>.
\<close>

fun startsWithIgnoringCase :: "jsstring \<Rightarrow> jsstring \<Rightarrow> bool" where
  "startsWithIgnoringCase s [] = True"
| "startsWithIgnoringCase [] (q # qs) = False"
| "startsWithIgnoringCase (c # s) (q # qs) =
     (asciiLower c = asciiLower q \<and> startsWithIgnoringCase s qs)"

fun includesIgnoringCase :: "jsstring \<Rightarrow> jsstring \<Rightarrow> bool" where
  "includesIgnoringCase [] q = (q = [])"
| "includesIgnoringCase (c # s) q =
     (startsWithIgnoringCase (c # s) q \<or> includesIgnoringCase s q)"

text \<open>
  The text of the combined tool before truncation, for the place as given and the subway
  records rendered.
\<close>

definition combinedText :: "env \<Rightarrow> jsstring \<Rightarrow> SubwayArrival list \<Rightarrow> jsstring" where
  "combinedText e place shown =
     combinedMarkdown e place shown
       (combinedBusStations e (normalizeStationName place))
       (combinedBikeStations e (normalizeStationName place))"

section \<open>Concrete inputs\<close>

text \<open>
  The station names of the specification's examples, sample records, and feeds: feeds
  that answer every request with an empty body; feeds with two trains, one bus, three
  stops and one bike station, whose \<open>JSON_stringify\<close> returns 30000 code units; a stop
  directory of one full page without a match and a second, short page; a stop directory
  whose every page is full and without a match; the sample feeds with a stop directory
  that fails; feeds whose subway list holds a \<^verbatim>\<open>null\<close>; and feeds on a platform whose
  \<^verbatim>\<open>toLowerCase\<close> gives what ECMAScript prescribes for the two Greek strings U+0391
  U+03A3 (the sigma ends a word and becomes U+03C2) and U+03A3 (it becomes U+03C3).
\<close>

definition gangnam :: jsstring where
  "gangnam = [0xAC15, 0xB0A8]"

definition gangnamStation :: jsstring where
  "gangnamStation = [0xAC15, 0xB0A8, 0xC5ED]"

definition gangnamOffice :: jsstring where
  "gangnamOffice = [0xAC15, 0xB0A8, 0xAD6C, 0xCCAD]"

definition trainTo :: "jsstring \<Rightarrow> SubwayArrival" where
  "trainTo dest =
     \<lparr>subwayId = ascii ''1002'', bstatnNm = dest, arvlMsg2 = ascii ''3 min'',
      updnLine = [0xC0C1, 0xD589], btrainNo = None\<rparr>"

definition busOnRoute :: "jsstring \<Rightarrow> BusArrival" where
  "busOnRoute route =
     \<lparr>stNm = gangnamStation, arsId = ascii ''22001'', rtNm = route, busRouteAbrv = None,
      arrmsg1 = ascii ''2 min'', arrmsg2 = ascii ''9 min'', routeType = Some (ascii ''3''),
      stationTp = None\<rparr>"

definition stopNamed :: "jsstring \<Rightarrow> jsstring \<Rightarrow> BusStation" where
  "stopNamed name no = \<lparr>STOPS_NM = Some name, STOPS_NO = no, STOPS_TYPE = None\<rparr>"

definition bikeDock :: BikeStation where
  "bikeDock =
     \<lparr>stationName = Some gangnamStation, stationId = ascii ''ST-1'', parkingBikeTotCnt = 5,
      rackTotCnt = 10\<rparr>"


text \<open>The message V8 gives for \<^verbatim>\<open>arr.subwayId\<close> when \<^verbatim>\<open>arr\<close> is \<^verbatim>\<open>null\<close>.\<close>

definition nullReadError :: jsstring where
  "nullReadError = ascii ''Cannot read properties of null (reading 'subwayId')''"

definition quietFeeds :: env where
  "quietFeeds =
     \<lparr>fetchSubwayArrival =
        (\<lambda>first end station. Inr \<lparr>errorMessage = None, realtimeArrivalList = None\<rparr>),
      fetchBusArrival = (\<lambda>stop. Inr \<lparr>msgHeader = None, msgBody_itemList = None\<rparr>),
      fetchBusStops = (\<lambda>first end. Inr None),
      fetchBikeList = (\<lambda>first end. Inr None),
      JSON_stringify = (\<lambda>v. []),
      roundPercent = (\<lambda>p r. 0),
      toLowerCase = (\<lambda>s. s),
      nullRecordMessage = nullReadError\<rparr>"

definition twoTrainFeeds :: env where
  "twoTrainFeeds =
     quietFeeds\<lparr>fetchSubwayArrival := (\<lambda>first end station.
        Inr \<lparr>errorMessage = None,
             realtimeArrivalList =
               Some [Some (trainTo (ascii ''A'')), Some (trainTo (ascii ''B''))]\<rparr>)\<rparr>"

definition sampleStops :: "BusStation list" where
  "sampleStops =
     [stopNamed gangnamStation (ascii ''22001''), stopNamed gangnamOffice (ascii ''22002''),
      stopNamed gangnam (ascii ''22003'')]"

definition sampleFeeds :: env where
  "sampleFeeds =
     twoTrainFeeds
       \<lparr>fetchBusArrival := (\<lambda>stop.
          Inr \<lparr>msgHeader = Some \<lparr>headerCd = Some (ascii ''0''), headerMsg = None\<rparr>,
               msgBody_itemList = Some [busOnRoute (ascii ''146'')]\<rparr>),
        fetchBusStops := (\<lambda>first end. Inr (Some sampleStops)),
        fetchBikeList := (\<lambda>first end. Inr (Some [bikeDock])),
        JSON_stringify := (\<lambda>v. replicate 30000 0x20),
        roundPercent := (\<lambda>p r. 50)\<rparr>"

definition twoPageDirectory :: env where
  "twoPageDirectory =
     quietFeeds\<lparr>fetchBusStops := (\<lambda>first end.
        if first = 1 then Inr (Some (replicate 1000 (stopNamed (ascii ''A'') (ascii ''00001''))))
        else Inr (Some [stopNamed gangnamStation (ascii ''00002'')]))\<rparr>"

definition fullDirectory :: env where
  "fullDirectory =
     quietFeeds\<lparr>fetchBusStops := (\<lambda>first end.
        Inr (Some (replicate 1000 (stopNamed (ascii ''A'') (ascii ''00001'')))))\<rparr>"

definition busFeedDown :: env where
  "busFeedDown = sampleFeeds\<lparr>fetchBusStops := (\<lambda>first end. Inl (ascii ''timeout''))\<rparr>"

definition nullRecordFeeds :: env where
  "nullRecordFeeds =
     quietFeeds\<lparr>fetchSubwayArrival := (\<lambda>first end station.
        Inr \<lparr>errorMessage = None, realtimeArrivalList = Some [None]\<rparr>)\<rparr>"

definition sigmaFeeds :: env where
  "sigmaFeeds =
     quietFeeds\<lparr>toLowerCase := (\<lambda>s.
        if s = [0x0391, 0x03A3] then [0x03B1, 0x03C2]
        else if s = [0x03A3] then [0x03C3]
        else s)\<rparr>"

text \<open>
  A name of 25000 letters \<^verbatim>\<open>a\<close>, and the answer of the combined tool to it: the first
  24900 code units of the heading followed by the truncation notice.
\<close>

definition longPlace :: jsstring where
  "longPlace = replicate 25000 0x61"


text \<open>Arguments that name the example station for every tool, in the text form.\<close>

definition sampleArguments :: ToolArguments where
  "sampleArguments =
     \<lparr>station_name = Some gangnamStation, line = None, ars_id = Some (ascii ''22001''),
      query = Some gangnam, location = Some gangnamStation, limit = None,
      response_format = None\<rparr>"

section \<open>Facts about strings\<close>

lemma length_ascii: "length (ascii s) = length s"
  by (simp add: ascii_def)

lemma str_startsWith_prefix: "str_startsWith s q = prefix q s"
  by (induction s q rule: str_startsWith.induct) auto

lemma str_includes_sublist: "str_includes s q = sublist q s"
proof (induction s)
  case Nil
  show ?case by simp
next
  case (Cons c s)
  show ?case
  proof (cases q)
    case Nil
    then show ?thesis by simp
  next
    case (Cons a qs)
    with Cons.IH show ?thesis
      by (auto simp add: str_startsWith_prefix sublist_code)
  qed
qed

lemma toLocaleString_limit: "toLocaleString CHARACTER_LIMIT = ascii ''25,000''"
  by (simp add: toLocaleString.simps numToString.simps CHARACTER_LIMIT_def pad3_def digit_def
      ascii_def)

lemma length_truncationNotice: "length truncationNotice = 30"
  by (simp add: truncationNotice_def toLocaleString_limit length_ascii)

lemma truncationNotice_names_limit: "str_includes truncationNotice (ascii ''25,000'')"
proof -
  have "truncationNotice =
      ([0x000A, 0x000A] @ ascii ''... ('' @ [0xC751, 0xB2F5, 0xC774] @ ascii '' '')
      @ ascii ''25,000''
      @ ([0xC790] @ ascii '' '' @ [0xC81C, 0xD55C, 0xC73C, 0xB85C] @ ascii '' ''
         @ [0xC798, 0xB838, 0xC2B5, 0xB2C8, 0xB2E4] @ ascii '')'')"
    by (simp add: truncationNotice_def toLocaleString_limit)
  then show ?thesis
    unfolding str_includes_sublist sublist_def by blast
qed

lemma length_truncateResponse: "length (truncateResponse content) \<le> CHARACTER_LIMIT"
  by (simp add: truncateResponse_def length_truncationNotice CHARACTER_LIMIT_def)

lemma str_trim_trimmed: "trimmed (str_trim s)"
proof -
  define d where "d = dropWhile isWhiteSpace s"
  define r where "r = dropWhile isWhiteSpace (rev d)"
  have t: "str_trim s = rev r"
    by (simp add: str_trim_def d_def r_def)
  show ?thesis
  proof (cases "r = []")
    case True
    with t show ?thesis by (simp add: trimmed_def)
  next
    case False
    then have hd_r: "\<not> isWhiteSpace (hd r)"
      unfolding r_def by (rule hd_dropWhile)
    from False have "rev d \<noteq> []"
      by (auto simp add: r_def)
    then have d_ne: "d \<noteq> []" by simp
    then have hd_d: "\<not> isWhiteSpace (hd d)"
      unfolding d_def by (rule hd_dropWhile)
    have "suffix r (rev d)"
      unfolding r_def by (rule suffix_dropWhile)
    then obtain ps where "rev d = ps @ r"
      by (auto simp add: suffix_def)
    with False have "last r = last (rev d)" by simp
    also from d_ne have "\<dots> = hd d" by (simp add: last_rev)
    finally have "\<not> isWhiteSpace (last r)" using hd_d by simp
    with hd_r False t show ?thesis
      by (simp add: trimmed_def hd_rev last_rev)
  qed
qed

lemma str_trim_id:
  assumes "trimmed t"
  shows "str_trim t = t"
proof (cases "t = []")
  case True
  then show ?thesis by (simp add: str_trim_def)
next
  case False
  with assms have ends: "\<not> isWhiteSpace (hd t)" "\<not> isWhiteSpace (last t)"
    by (simp_all add: trimmed_def)
  from False ends(1) have "dropWhile isWhiteSpace t = t"
    by (cases t) simp_all
  moreover from False ends(2) have "dropWhile isWhiteSpace (rev t) = rev t"
    by (cases "rev t") (simp_all add: hd_rev [symmetric])
  ultimately show ?thesis by (simp add: str_trim_def)
qed

lemma length_str_trim: "length (str_trim s) \<le> length s"
proof -
  define d where "d = dropWhile isWhiteSpace s"
  have "length (dropWhile isWhiteSpace (rev d)) \<le> length (rev d)"
    by (rule length_dropWhile_le)
  moreover have "length d \<le> length s"
    unfolding d_def by (rule length_dropWhile_le)
  ultimately show ?thesis
    by (simp add: str_trim_def d_def)
qed

lemma normalize_gangnamStation: "normalizeStationName gangnamStation = gangnam"
  by (simp add: normalizeStationName_def stripStationSuffix_def endsWithStationSuffix_def
      str_trim_def isWhiteSpace_def gangnamStation_def gangnam_def)

lemma normalize_gangnam: "normalizeStationName gangnam = gangnam"
  by (simp add: normalizeStationName_def stripStationSuffix_def endsWithStationSuffix_def
      str_trim_def isWhiteSpace_def gangnam_def)




lemma startsWith_lower:
  "str_startsWith (map asciiLower s) (map asciiLower q) = startsWithIgnoringCase s q"
  by (induction s q rule: startsWithIgnoringCase.induct) simp_all

lemma includes_lower:
  "str_includes (map asciiLower s) (map asciiLower q) = includesIgnoringCase s q"
proof (induction s)
  case Nil
  show ?case by simp
next
  case (Cons c s)
  have "str_startsWith (map asciiLower (c # s)) (map asciiLower q)
      = startsWithIgnoringCase (c # s) q"
    by (rule startsWith_lower)
  with Cons show ?case
    by simp
qed


lemma those_Some: "those xs = Some ys \<Longrightarrow> xs = map Some ys"
  by (induction xs arbitrary: ys) (auto split: option.splits)

lemma those_map_Some: "those (map Some ys) = Some ys"
  by (induction ys) simp_all

lemma not_json: "ascii ''markdown'' \<noteq> ascii ''json''"
  by (simp add: ascii_def)

lemma str_trim_gangnam: "str_trim gangnam = gangnam"
  by (simp add: str_trim_def isWhiteSpace_def gangnam_def)

lemma trimmed_longPlace: "trimmed longPlace"
  by (simp add: trimmed_def longPlace_def isWhiteSpace_def)

section \<open>The result limit\<close>

lemma limitOf_le_20: "limitOf args \<le> 20"
  by (simp add: limitOf_def)

lemma limitOf_positive:
  "limit args = None \<or> (\<exists>n. limit args = Some n \<and> 0 \<le> n) \<Longrightarrow> 1 \<le> limitOf args"
  by (auto simp add: limitOf_def split: option.splits)

text \<open>
  C1. The claim: the limit applied is always within 1 and 20. The code caps the limit
  at 20 and replaces a missing limit and the limit 0 by 10, but has no lower bound: the
  limit -5 is applied as it is, and \<^verbatim>\<open>slice(0, -5)\<close> then keeps all but the last five
  of the records, 25 of 30.
\<close>

theorem limitOf_negative_unclamped:
  "limitOf (emptyArguments\<lparr>limit := Some (- 5)\<rparr>) = - 5 \<and>
   length (slice0 (limitOf (emptyArguments\<lparr>limit := Some (- 5)\<rparr>)) (replicate 30 (busOnRoute (ascii ''146'')))) = 25 \<and>
   limitOf (emptyArguments\<lparr>limit := Some 0\<rparr>) = 10 \<and>
   limitOf (emptyArguments\<lparr>limit := Some 25\<rparr>) = 20 \<and>
   limitOf emptyArguments = 10"
  by (simp add: limitOf_def emptyArguments_def slice0_def)

text \<open>
  C2. The claim: no tool renders more items than the requested limit. The subway tool
  sends the limit to the feed and renders every record of the answer: with the limit 1
  and a feed that answers with two records, both are rendered.
\<close>

theorem subway_renders_every_record:
  "limitOf (emptyArguments\<lparr>station_name := Some gangnam, limit := Some 1\<rparr>) = 1 \<and>
   transitGetSubwayArrival twoTrainFeeds
       (emptyArguments\<lparr>station_name := Some gangnam, limit := Some 1\<rparr>)
     = Inr (truncateResponse (subwayMarkdown gangnam [trainTo (ascii ''A''), trainTo (ascii ''B'')])) \<and>
   subwayMarkdown gangnam [trainTo (ascii ''A''), trainTo (ascii ''B'')]
     = subwayHeading gangnam 2 @ subwayEntry 0 (trainTo (ascii ''A''))
       @ subwayEntry 1 (trainTo (ascii ''B''))"
proof -
  have fmt: "ascii ''markdown'' \<noteq> ascii ''json''"
    by (simp add: ascii_def)
  have "subwayArrivals twoTrainFeeds 1 gangnam = Inr [trainTo (ascii ''A''), trainTo (ascii ''B'')]"
    by (simp add: subwayArrivals_def twoTrainFeeds_def quietFeeds_def subwayApiError_def)
  then show ?thesis
    by (simp add: transitGetSubwayArrival_def emptyArguments_def normalize_gangnam limitOf_def
        formatOf_def or_str_def fmt subwayMarkdown_def numeral_2_eq_2)
qed

section \<open>Truncation\<close>

text \<open>
  C4. \<open>truncateResponse\<close> is the identity on every string of at most 25000 code units;
  on a longer string its result is the first 24900 code units (25000 - 100) followed by
  the truncation notice; the notice contains the limit printed with a thousands
  separator, \<^verbatim>\<open>25,000\<close>; and the length of the result is 24900 plus the length of the
  notice.
\<close>

theorem truncateResponse_cases:
  "(length content \<le> 25000 \<longrightarrow> truncateResponse content = content) \<and>
   (25000 < length content \<longrightarrow>
      truncateResponse content = take 24900 content @ truncationNotice \<and>
      length (truncateResponse content) = 24900 + length truncationNotice) \<and>
   str_includes truncationNotice (ascii ''25,000'')"
  by (simp add: truncateResponse_def CHARACTER_LIMIT_def truncationNotice_names_limit)

theorem truncateResponse_cases_witness:
  "length (ascii ''abc'') \<le> 25000 \<and> truncateResponse (ascii ''abc'') = ascii ''abc'' \<and>
   25000 < length (replicate 25001 (0x61 :: 16 word)) \<and>
   truncateResponse (replicate 25001 0x61) = take 24900 (replicate 25001 0x61) @ truncationNotice \<and>
   length (truncateResponse (replicate 25001 0x61)) = 24900 + length truncationNotice"
  using truncateResponse_cases [of "ascii ''abc''"]
    truncateResponse_cases [of "replicate 25001 0x61"]
  by (simp add: length_ascii)

text \<open>
  C10. \<open>truncateResponse\<close> is idempotent: a truncated result has 24900 + 30 code units,
  which is within the limit, so a second application returns it unchanged.
\<close>

theorem truncateResponse_idempotent:
  "truncateResponse (truncateResponse content) = truncateResponse content"
proof (cases "length content \<le> CHARACTER_LIMIT")
  case True
  then show ?thesis by (simp add: truncateResponse_def)
next
  case False
  then have "length (take (CHARACTER_LIMIT - 100) content @ truncationNotice) \<le> CHARACTER_LIMIT"
    by (simp add: CHARACTER_LIMIT_def length_truncationNotice)
  with False show ?thesis by (simp add: truncateResponse_def)
qed

section \<open>Station names\<close>

text \<open>
  C9, as amended. Normalising a station name (one trailing U+C5ED removed, then the ends
  trimmed) a second time changes nothing exactly when the normalised name does not itself
  end in U+C5ED; the name of the specification's example with the suffix and the one
  without it normalise to the same string, so the subway look-ups of the subway tool and
  of the combined tool are the same for both, and the subway tool answers both alike, for
  any feeds.
\<close>

theorem normalizeStationName_twice:
  "(normalizeStationName (normalizeStationName s) = normalizeStationName s)
     = (\<not> endsWithStationSuffix (normalizeStationName s)) \<and>
   normalizeStationName gangnamStation = normalizeStationName gangnam \<and>
   subwayArrivals e lim (normalizeStationName gangnamStation)
     = subwayArrivals e lim (normalizeStationName gangnam) \<and>
   combinedSubway e (normalizeStationName gangnamStation)
     = combinedSubway e (normalizeStationName gangnam) \<and>
   transitGetSubwayArrival e (args\<lparr>station_name := Some gangnamStation\<rparr>)
     = transitGetSubwayArrival e (args\<lparr>station_name := Some gangnam\<rparr>)"
proof -
  define t where "t = normalizeStationName s"
  have tr: "trimmed t"
    by (simp add: t_def normalizeStationName_def str_trim_trimmed)
  have "(normalizeStationName t = t) = (\<not> endsWithStationSuffix t)"
  proof (cases "endsWithStationSuffix t")
    case True
    then have "t \<noteq> []" by (simp add: endsWithStationSuffix_def)
    then have "length (butlast t) < length t" by simp
    moreover have "length (str_trim (butlast t)) \<le> length (butlast t)"
      by (rule length_str_trim)
    ultimately have "str_trim (butlast t) \<noteq> t" by auto
    with True show ?thesis
      by (simp add: normalizeStationName_def stripStationSuffix_def)
  next
    case False
    with tr show ?thesis
      by (simp add: normalizeStationName_def stripStationSuffix_def str_trim_id)
  qed
  then show ?thesis
    by (simp add: t_def normalize_gangnamStation normalize_gangnam
        transitGetSubwayArrival_def limitOf_def formatOf_def)
qed

theorem normalizeStationName_twice_witness:
  "normalizeStationName (normalizeStationName gangnamStation) = normalizeStationName gangnamStation \<and>
   \<not> endsWithStationSuffix (normalizeStationName gangnamStation)"
  using normalizeStationName_twice [of gangnamStation]
  by (simp add: normalize_gangnamStation normalize_gangnam endsWithStationSuffix_def gangnam_def)

theorem normalizeStationName_not_idempotent:
  "normalizeStationName (normalizeStationName [0xAC15, 0xB0A8, 0xC5ED, 0xC5ED])
     \<noteq> normalizeStationName [0xAC15, 0xB0A8, 0xC5ED, 0xC5ED]"
  by (simp add: normalizeStationName_def stripStationSuffix_def endsWithStationSuffix_def
      str_trim_def isWhiteSpace_def)

section \<open>The paginated scan of the stop directory\<close>

lemma accumulatedMatches_step:
  "1 \<le> page \<Longrightarrow>
   accumulatedMatches e q page
     = accumulatedMatches e q (page - 1) @ filter (stopMatches q) (pageRows e page)"
  by (cases page) (simp_all add: accumulatedMatches_def)

lemma scanBusStops_invariant:
  assumes "1 \<le> page" and "page \<le> 6"
    and "results = accumulatedMatches e q (page - 1)"
    and "requests = map pageRequest [1..<page]"
    and "\<And>p. 1 \<le> p \<Longrightarrow> p < page \<Longrightarrow> \<not> stopCondition e q lim p"
  shows "length (fst (scanBusStops e q lim page results requests)) \<le> 5 \<and>
         fst (scanBusStops e q lim page results requests)
           = map pageRequest [1..<Suc (length (fst (scanBusStops e q lim page results requests)))] \<and>
         (\<forall>p. 1 \<le> p \<and> stopCondition e q lim p
              \<longrightarrow> length (fst (scanBusStops e q lim page results requests)) \<le> p)"
  using assms
proof (induction e q lim page results requests rule: scanBusStops.induct)
  case (1 e q lim page results requests)
  have later: "page \<le> p" if "1 \<le> p" "stopCondition e q lim p" for p
    using that "1.prems"(5) [of p] by (cases "p < page") auto
  show ?case
  proof (cases "page \<le> 5")
    case False
    then have R: "fst (scanBusStops e q lim page results requests) = requests"
      by (simp add: scanBusStops.simps [of e q lim page])
    from False "1.prems" have "page = 6" by simp
    with "1.prems"(4) have "length requests = 5" "requests = map pageRequest [1..<Suc 5]"
      by simp_all
    moreover have "5 \<le> p" if "1 \<le> p" "stopCondition e q lim p" for p
      using later [OF that] \<open>page = 6\<close> by simp
    ultimately show ?thesis
      unfolding R by simp
  next
    case True
    note page = True
    have here: "length (requests @ [pageRequest page]) = page"
      "requests @ [pageRequest page] = map pageRequest [1..<Suc page]"
      using "1.prems"(1,4) by simp_all
    show ?thesis
    proof (cases "fetchStopPage e page")
      case (Inl msg)
      with page have "fst (scanBusStops e q lim page results requests) = requests @ [pageRequest page]"
        by (simp add: scanBusStops.simps [of e q lim page])
      with here page later show ?thesis by auto
    next
      case (Inr rows)
      then have rows: "pageRows e page = rows"
        by (simp add: pageRows_def)
      have acc: "results @ filter (stopMatches q) rows = accumulatedMatches e q page"
        using "1.prems"(1,3) rows by (simp add: accumulatedMatches_step)
      show ?thesis
      proof (cases "lim * 3 \<le> int (length (results @ filter (stopMatches q) rows))
                    \<or> length rows < pageSize")
        case True
        with page Inr
        have "fst (scanBusStops e q lim page results requests) = requests @ [pageRequest page]"
          by (simp add: scanBusStops.simps [of e q lim page])
        with here page later show ?thesis by auto
      next
        case False
        with page Inr
        have unfold: "scanBusStops e q lim page results requests
            = scanBusStops e q lim (page + 1) (results @ filter (stopMatches q) rows)
                (requests @ [pageRequest page])"
          by (simp add: scanBusStops.simps [of e q lim page])
        from False have nostop: "\<not> stopCondition e q lim page"
          unfolding stopCondition_def rows acc [symmetric] by simp
        have inv: "\<not> stopCondition e q lim p" if "1 \<le> p" "p < page + 1" for p
          using that nostop "1.prems"(5) [of p] by (cases "p = page") auto
        have "length (fst (scanBusStops e q lim (page + 1) (results @ filter (stopMatches q) rows)
                 (requests @ [pageRequest page]))) \<le> 5 \<and>
              fst (scanBusStops e q lim (page + 1) (results @ filter (stopMatches q) rows)
                 (requests @ [pageRequest page]))
                = map pageRequest [1..<Suc (length (fst (scanBusStops e q lim (page + 1)
                    (results @ filter (stopMatches q) rows) (requests @ [pageRequest page]))))] \<and>
              (\<forall>p. 1 \<le> p \<and> stopCondition e q lim p
                 \<longrightarrow> length (fst (scanBusStops e q lim (page + 1)
                       (results @ filter (stopMatches q) rows) (requests @ [pageRequest page]))) \<le> p)"
        proof (rule "1.IH" [OF page Inr False])
          show "1 \<le> page + 1" by simp
          show "page + 1 \<le> 6" using page by simp
          show "results @ filter (stopMatches q) rows = accumulatedMatches e q (page + 1 - 1)"
            using acc by simp
          show "requests @ [pageRequest page] = map pageRequest [1..<page + 1]"
            using here(2) by simp
          show "\<not> stopCondition e q lim p" if "1 \<le> p" "p < page + 1" for p
            using that by (rule inv)
        qed
        then show ?thesis
          unfolding unfold .
      qed
    qed
  qed
qed

lemma scanRequests_bounded:
  "length (scanRequests e q lim) \<le> 5 \<and>
   scanRequests e q lim = map pageRequest [1..<Suc (length (scanRequests e q lim))] \<and>
   (\<forall>p. 1 \<le> p \<and> stopCondition e q lim p \<longrightarrow> length (scanRequests e q lim) \<le> p)"
  unfolding scanRequests_def
  by (rule scanBusStops_invariant) (simp_all add: accumulatedMatches_def)

lemma accumulatedMatches_first:
  "accumulatedMatches e q (Suc 0) = filter (stopMatches q) (pageRows e (Suc 0))"
  by (simp add: accumulatedMatches_def)

lemma fetchStopPage_twoPageDirectory:
  "fetchStopPage twoPageDirectory (Suc 0)
     = Inr (replicate 1000 (stopNamed (ascii ''A'') (ascii ''00001'')))"
  "fetchStopPage twoPageDirectory (Suc (Suc 0)) = Inr [stopNamed gangnamStation (ascii ''00002'')]"
  by (simp_all add: fetchStopPage_def pageRequest_def pageSize_def
      twoPageDirectory_def quietFeeds_def)

lemma pageRows_twoPageDirectory:
  "pageRows twoPageDirectory (Suc 0) = replicate 1000 (stopNamed (ascii ''A'') (ascii ''00001''))"
  "pageRows twoPageDirectory (Suc (Suc 0)) = [stopNamed gangnamStation (ascii ''00002'')]"
  by (simp_all add: pageRows_def fetchStopPage_twoPageDirectory)

lemma no_match_A: "\<not> stopMatches gangnam (stopNamed (ascii ''A'') (ascii ''00001''))"
  by (simp add: stopMatches_def stopNamed_def gangnam_def ascii_def)

lemma scanRequests_twoPageDirectory:
  "scanRequests twoPageDirectory gangnam 10 = [(1, 1000), (1001, 2000)]"
proof -
  have "scanBusStops twoPageDirectory gangnam 10 (Suc 0) [] []
      = scanBusStops twoPageDirectory gangnam 10 (Suc (Suc 0)) [] [pageRequest (Suc 0)]"
    by (simp add: scanBusStops.simps [of _ _ _ "Suc 0"] fetchStopPage_twoPageDirectory no_match_A
        pageSize_def)
  also have "fst \<dots> = [pageRequest (Suc 0), pageRequest (Suc (Suc 0))]"
    by (simp add: scanBusStops.simps [of _ _ _ "Suc (Suc 0)"] fetchStopPage_twoPageDirectory
        pageSize_def)
  finally show ?thesis
    by (simp add: scanRequests_def pageRequest_def pageSize_def)
qed

lemma fetchStopPage_fullDirectory:
  "fetchStopPage fullDirectory page
     = Inr (replicate 1000 (stopNamed (ascii ''A'') (ascii ''00001'')))"
  by (simp add: fetchStopPage_def fullDirectory_def quietFeeds_def)

lemma scanBusStops_fullDirectory:
  "page \<le> 6 \<Longrightarrow>
   fst (scanBusStops fullDirectory gangnam 10 page [] requests)
     = requests @ map pageRequest [page..<6]"
proof (induction "6 - page" arbitrary: page requests)
  case 0
  then have "page = 6" by simp
  then show ?case
    by (simp add: scanBusStops.simps [of _ _ _ 6])
next
  case (Suc n)
  then have page: "page \<le> 5" by simp
  then have "scanBusStops fullDirectory gangnam 10 page [] requests
      = scanBusStops fullDirectory gangnam 10 (Suc page) [] (requests @ [pageRequest page])"
    by (simp add: scanBusStops.simps [of _ _ _ page] fetchStopPage_fullDirectory no_match_A
        pageSize_def)
  moreover have "fst (scanBusStops fullDirectory gangnam 10 (Suc page) []
        (requests @ [pageRequest page]))
      = (requests @ [pageRequest page]) @ map pageRequest [Suc page..<6]"
    using Suc.hyps(2) page by (intro Suc.hyps(1)) simp_all
  moreover from page have "[page..<6] = page # [Suc page..<6]"
    by (simp add: upt_conv_Cons)
  ultimately show ?case by simp
qed

lemma scanRequests_fullDirectory:
  "scanRequests fullDirectory gangnam 10
     = [(1, 1000), (1001, 2000), (2001, 3000), (3001, 4000), (4001, 5000)]"
proof -
  have "[1..<6] = [1, 2, 3, 4, 5 :: nat]"
    by (simp add: upt_conv_Cons)
  then show ?thesis
    unfolding scanRequests_def
    by (simp add: scanBusStops_fullDirectory pageRequest_def pageSize_def)
qed

text \<open>
  C6, as amended. The stop search issues at most 5 requests; they are the pages 1, 2, ...
  in order, each an index range of 1000 records; and no request follows the first page
  after which the accumulated matches reach 3 times the limit the code applies,
  \<open>limitOf args\<close>, or which has fewer records than the page size. When the requested
  limit is not 0 the same holds for 3 times the requested limit itself.
\<close>

theorem stop_scan_bounded:
  "length (scanRequests e q lim) \<le> 5 \<and>
   scanRequests e q lim = map pageRequest [1..<Suc (length (scanRequests e q lim))] \<and>
   pageRequest page = ((page - 1) * 1000 + 1, page * 1000) \<and>
   (1 \<le> page \<and> stopCondition e q lim page \<longrightarrow> length (scanRequests e q lim) \<le> page) \<and>
   (limit args = Some n \<and> n \<noteq> 0 \<and> 1 \<le> page \<and>
      (n * 3 \<le> int (length (accumulatedMatches e q page)) \<or> length (pageRows e page) < 1000)
      \<longrightarrow> length (scanRequests e q (limitOf args)) \<le> page)"
proof -
  have "length (scanRequests e q (limitOf args)) \<le> page"
    if "limit args = Some n" "n \<noteq> 0" "1 \<le> page"
      "n * 3 \<le> int (length (accumulatedMatches e q page)) \<or> length (pageRows e page) < 1000"
  proof -
    from that(1,2) have "limitOf args \<le> n"
      by (simp add: limitOf_def)
    with that(4) have "stopCondition e q (limitOf args) page"
      by (auto simp add: stopCondition_def pageSize_def)
    with that(3) show ?thesis
      using scanRequests_bounded [of e q "limitOf args"] by blast
  qed
  then show ?thesis
    using scanRequests_bounded [of e q lim] by (simp add: pageRequest_def pageSize_def)
qed

theorem stop_scan_bounded_witness:
  "scanRequests twoPageDirectory gangnam 10 = [(1, 1000), (1001, 2000)] \<and>
   \<not> stopCondition twoPageDirectory gangnam 10 1 \<and>
   stopCondition twoPageDirectory gangnam 10 2 \<and>
   length (scanRequests twoPageDirectory gangnam 10) \<le> 2 \<and>
   limit (emptyArguments\<lparr>limit := Some 10\<rparr>) = Some 10 \<and>
   length (scanRequests twoPageDirectory gangnam (limitOf (emptyArguments\<lparr>limit := Some 10\<rparr>))) \<le> 2"
proof -
  have one: "\<not> stopCondition twoPageDirectory gangnam 10 1"
    by (simp add: stopCondition_def accumulatedMatches_first pageRows_twoPageDirectory no_match_A
        pageSize_def)
  have "pageRows twoPageDirectory 2 = [stopNamed gangnamStation (ascii ''00002'')]"
    using pageRows_twoPageDirectory(2) by (simp add: numeral_2_eq_2)
  then have two: "stopCondition twoPageDirectory gangnam 10 2"
    by (simp add: stopCondition_def pageSize_def)
  have lim: "limit (emptyArguments\<lparr>limit := Some 10\<rparr>) = Some 10"
    by simp
  note t = stop_scan_bounded [of twoPageDirectory gangnam 10 2
      "emptyArguments\<lparr>limit := Some 10\<rparr>" 10]
  from t two have a: "length (scanRequests twoPageDirectory gangnam 10) \<le> 2"
    by simp
  from t two lim
  have b: "length (scanRequests twoPageDirectory gangnam (limitOf (emptyArguments\<lparr>limit := Some 10\<rparr>))) \<le> 2"
    by (auto simp add: stopCondition_def pageSize_def)
  from one two lim a b show ?thesis
    by (simp only: scanRequests_twoPageDirectory simp_thms)
qed

text \<open>
  With the requested limit 0 the code applies the limit 10. On a directory whose pages
  are all full and hold no match, the matches accumulated after page 1, none, reach 3
  times the requested limit, yet the scan goes on and issues all 5 requests.
\<close>

theorem stop_scan_limit_zero:
  "limit (emptyArguments\<lparr>limit := Some 0\<rparr>) = Some 0 \<and>
   limitOf (emptyArguments\<lparr>limit := Some 0\<rparr>) = 10 \<and>
   (0 :: int) * 3 \<le> int (length (accumulatedMatches fullDirectory gangnam 1)) \<and>
   scanRequests fullDirectory gangnam (limitOf (emptyArguments\<lparr>limit := Some 0\<rparr>))
     = [(1, 1000), (1001, 2000), (2001, 3000), (3001, 4000), (4001, 5000)] \<and>
   \<not> length (scanRequests fullDirectory gangnam (limitOf (emptyArguments\<lparr>limit := Some 0\<rparr>))) \<le> 1"
proof -
  have "limitOf (emptyArguments\<lparr>limit := Some 0\<rparr>) = 10"
    by (simp add: limitOf_def)
  then show ?thesis
    by (simp add: scanRequests_fullDirectory)
qed
section \<open>The ranking of the stop search\<close>

lemma compareStations_le: "(compareStations q a b \<le> 0) = (rankKey q a \<le> rankKey q b)"
  by (auto simp add: compareStations_def rankKey_def stopName_def Let_def less_eq_prod_def)

lemma ranksBefore_key: "ranksBefore q a b = (rankKey q a \<le> rankKey q b)"
  by (auto simp add: ranksBefore_def rankKey_def less_eq_prod_def)

lemma insertSorted_insort:
  "insertSorted (compareStations q) x ys = insort_key (rankKey q) x ys"
  by (induction ys) (simp_all add: compareStations_le)

lemma array_sort_sort_key: "array_sort (compareStations q) xs = sort_key (rankKey q) xs"
  by (induction xs) (simp_all add: array_sort_def insertSorted_insort)

lemma sorted_array_sort: "sorted_wrt (ranksBefore q) (array_sort (compareStations q) xs)"
proof -
  have rel: "ranksBefore q = (\<lambda>a b. rankKey q a \<le> rankKey q b)"
    by (simp add: fun_eq_iff ranksBefore_key)
  have "sorted (map (rankKey q) (sort_key (rankKey q) xs))"
    by (rule sorted_sort_key)
  then show ?thesis
    unfolding rel array_sort_sort_key by (simp only: sorted_map)
qed

lemma sorted_slice0: "sorted_wrt R xs \<Longrightarrow> sorted_wrt R (slice0 n xs)"
  by (simp add: slice0_def sorted_wrt_take)

lemma sorted_sampleStops:
  "array_sort (compareStations gangnam) sampleStops =
     [stopNamed gangnam (ascii ''22003''), stopNamed gangnamStation (ascii ''22001''),
      stopNamed gangnamOffice (ascii ''22002'')]"
  by (simp add: array_sort_def compareStations_def sampleStops_def stopNamed_def or_str_def
      gangnam_def gangnamStation_def gangnamOffice_def Let_def)

lemma fetchStopPage_sampleFeeds: "fetchStopPage sampleFeeds page = Inr sampleStops"
  by (simp add: fetchStopPage_def sampleFeeds_def twoTrainFeeds_def quietFeeds_def)

lemma sampleStops_match: "filter (stopMatches gangnam) sampleStops = sampleStops"
  by (simp add: sampleStops_def stopMatches_def stopNamed_def gangnam_def gangnamStation_def
      gangnamOffice_def)

lemma stopSearchStations_sampleFeeds:
  "stopSearchStations sampleFeeds gangnam 10 =
     Inr [stopNamed gangnam (ascii ''22003''), stopNamed gangnamStation (ascii ''22001''),
          stopNamed gangnamOffice (ascii ''22002'')]"
proof -
  have "length sampleStops < pageSize"
    by (simp add: sampleStops_def pageSize_def)
  then have "snd (scanBusStops sampleFeeds gangnam 10 (Suc 0) [] []) = Inr sampleStops"
    by (simp add: scanBusStops.simps [of _ _ _ "Suc 0"] fetchStopPage_sampleFeeds
        sampleStops_match)
  then show ?thesis
    by (simp add: stopSearchStations_def sorted_sampleStops slice0_def)
qed

text \<open>
  C7. The stop search orders its candidates by the key of the specification: first
  whether the name starts with the query (those that do come first), then the length of
  the name, ascending; the sort keeps all candidates and keeps candidates of equal key in
  the order of the scan; the list the tool renders, a cut of the sorted list, is ordered
  likewise; and for the query and the three candidates of the specification's example
  the order is the expected one.
\<close>

theorem stop_ranking:
  "mset (array_sort (compareStations q) results) = mset results \<and>
   sorted_wrt (ranksBefore q) (array_sort (compareStations q) results) \<and>
   filter (\<lambda>s. rankKey q s = k) (array_sort (compareStations q) results)
     = filter (\<lambda>s. rankKey q s = k) results \<and>
   (stopSearchStations e q lim = Inr stations \<longrightarrow> sorted_wrt (ranksBefore q) stations) \<and>
   map stopName (array_sort (compareStations gangnam) sampleStops)
     = [gangnam, gangnamStation, gangnamOffice]"
proof -
  have "sorted_wrt (ranksBefore q) stations" if "stopSearchStations e q lim = Inr stations"
    using that
    by (auto simp add: stopSearchStations_def Let_def sorted_slice0 sorted_array_sort
        split: sum.splits)
  moreover have "map stopName (array_sort (compareStations gangnam) sampleStops)
      = [gangnam, gangnamStation, gangnamOffice]"
    by (simp only: sorted_sampleStops)
      (simp add: stopName_def stopNamed_def or_str_def gangnam_def gangnamStation_def
        gangnamOffice_def)
  ultimately show ?thesis
    by (simp add: sorted_array_sort) (simp add: array_sort_sort_key sort_key_stable)
qed

theorem stop_ranking_witness:
  "stopSearchStations sampleFeeds gangnam 10 =
     Inr [stopNamed gangnam (ascii ''22003''), stopNamed gangnamStation (ascii ''22001''),
          stopNamed gangnamOffice (ascii ''22002'')] \<and>
   sorted_wrt (ranksBefore gangnam)
     [stopNamed gangnam (ascii ''22003''), stopNamed gangnamStation (ascii ''22001''),
      stopNamed gangnamOffice (ascii ''22002'')]"
  using stop_ranking [of gangnam "[]" "(False, 0)" sampleFeeds 10
      "[stopNamed gangnam (ascii ''22003''), stopNamed gangnamStation (ascii ''22001''),
        stopNamed gangnamOffice (ascii ''22002'')]"]
  by (simp only: stopSearchStations_sampleFeeds simp_thms)

section \<open>The match predicates of the directory scans\<close>

text \<open>
  C8, as amended. A bike station matches exactly when it has a name whose lower-cased
  form contains the lower-cased query, \<^verbatim>\<open>toLowerCase\<close> being applied to each whole
  string; for a name and a query of Basic Latin and Hangul units that is containment up
  to the case of the letters. A stop matches exactly when it has a name that contains the
  query as it is written, or its identifier equals the query: the stop search compares
  the name case-sensitively.
\<close>

theorem match_predicates:
  "bikeMatches e q b
     = (case stationName b of None \<Rightarrow> False
        | Some n \<Rightarrow>
            sublist (str_toLowerCase (toLowerCase e) q) (str_toLowerCase (toLowerCase e) n)) \<and>
   (stationName b = Some n \<and> list_all plainUnit n \<and> list_all plainUnit q \<longrightarrow>
      bikeMatches e q b = includesIgnoringCase n q) \<and>
   stopMatches q s
     = ((case STOPS_NM s of None \<Rightarrow> False | Some n \<Rightarrow> sublist q n) \<or> STOPS_NO s = q)"
proof -
  have "bikeMatches e q b
      = (case stationName b of None \<Rightarrow> False
         | Some n \<Rightarrow>
             sublist (str_toLowerCase (toLowerCase e) q) (str_toLowerCase (toLowerCase e) n))"
    by (simp add: bikeMatches_def str_includes_sublist split: option.splits)
  moreover have "bikeMatches e q b = includesIgnoringCase n q"
    if "stationName b = Some n \<and> list_all plainUnit n \<and> list_all plainUnit q"
    using that by (simp add: bikeMatches_def str_toLowerCase_def includes_lower)
  moreover have "stopMatches q s
      = ((case STOPS_NM s of None \<Rightarrow> False | Some n \<Rightarrow> sublist q n) \<or> STOPS_NO s = q)"
    by (simp add: stopMatches_def str_includes_sublist split: option.splits)
  ultimately show ?thesis by blast
qed

theorem match_predicates_witness:
  "list_all plainUnit (ascii ''Gangnam Stn. 1'') \<and> list_all plainUnit (ascii ''gangnam'') \<and>
   includesIgnoringCase (ascii ''Gangnam Stn. 1'') (ascii ''gangnam'') \<and>
   bikeMatches sigmaFeeds (ascii ''gangnam'')
     \<lparr>stationName = Some (ascii ''Gangnam Stn. 1''), stationId = ascii ''ST-1'',
      parkingBikeTotCnt = 5, rackTotCnt = 10\<rparr> \<and>
   list_all plainUnit (ascii ''gangbuk'') \<and>
   \<not> includesIgnoringCase (ascii ''Gangnam Stn. 1'') (ascii ''gangbuk'') \<and>
   \<not> bikeMatches sigmaFeeds (ascii ''gangbuk'')
     \<lparr>stationName = Some (ascii ''Gangnam Stn. 1''), stationId = ascii ''ST-1'',
      parkingBikeTotCnt = 5, rackTotCnt = 10\<rparr> \<and>
   stopMatches (ascii ''22001'') (stopNamed gangnamStation (ascii ''22001'')) \<and>
   stopMatches gangnam (stopNamed gangnamStation (ascii ''22001''))"
proof -
  define dock :: BikeStation where
    "dock = \<lparr>stationName = Some (ascii ''Gangnam Stn. 1''), stationId = ascii ''ST-1'',
      parkingBikeTotCnt = 5, rackTotCnt = 10\<rparr>"
  have name: "stationName dock = Some (ascii ''Gangnam Stn. 1'')"
    by (simp add: dock_def)
  have plain: "list_all plainUnit (ascii ''Gangnam Stn. 1'')"
    "list_all plainUnit (ascii ''gangnam'')" "list_all plainUnit (ascii ''gangbuk'')"
    by (simp_all add: plainUnit_def ascii_def)
  have inc: "includesIgnoringCase (ascii ''Gangnam Stn. 1'') (ascii ''gangnam'')"
    "\<not> includesIgnoringCase (ascii ''Gangnam Stn. 1'') (ascii ''gangbuk'')"
    by (simp_all add: asciiLower_def ascii_def)
  have "bikeMatches sigmaFeeds (ascii ''gangnam'') dock"
    using match_predicates [where e = sigmaFeeds and q = "ascii ''gangnam''"
        and n = "ascii ''Gangnam Stn. 1''" and b = dock] name plain inc
    by blast
  moreover have "\<not> bikeMatches sigmaFeeds (ascii ''gangbuk'') dock"
    using match_predicates [where e = sigmaFeeds and q = "ascii ''gangbuk''"
        and n = "ascii ''Gangnam Stn. 1''" and b = dock] name plain inc
    by blast
  moreover have "stopMatches (ascii ''22001'') (stopNamed gangnamStation (ascii ''22001''))"
    using match_predicates [where q = "ascii ''22001''"
        and s = "stopNamed gangnamStation (ascii ''22001'')"]
    by (simp add: stopNamed_def)
  moreover have "stopMatches gangnam (stopNamed gangnamStation (ascii ''22001''))"
    using match_predicates [where q = gangnam and s = "stopNamed gangnamStation (ascii ''22001'')"]
    by (simp add: stopNamed_def gangnam_def gangnamStation_def)
  ultimately show ?thesis
    using plain inc unfolding dock_def by blast
qed

theorem stop_match_case_sensitive:
  "includesIgnoringCase (ascii ''Gangnam'') (ascii ''gangnam'') \<and>
   \<not> stopMatches (ascii ''gangnam'') (stopNamed (ascii ''Gangnam'') (ascii ''22001''))"
  by (simp add: ascii_def asciiLower_def stopMatches_def stopNamed_def)

text \<open>
  Outside these strings the lower-casing of the platform decides. On a platform that
  lower-cases the capital sigma as ECMAScript prescribes, a bike station named U+0391
  U+03A3 does not match the query U+03A3, although the name contains the query as it is
  written: the sigma of the name ends a word and becomes U+03C2, that of the query
  becomes U+03C3.
\<close>

lemma bike_match_final_sigma:
  "sublist [0x03A3] [0x0391, 0x03A3 :: 16 word] \<and>
   \<not> bikeMatches sigmaFeeds [0x03A3]
       \<lparr>stationName = Some [0x0391, 0x03A3], stationId = ascii ''ST-2'',
        parkingBikeTotCnt = 0, rackTotCnt = 0\<rparr>"
  by (simp add: bikeMatches_def str_toLowerCase_def plainUnit_def sigmaFeeds_def quietFeeds_def
      sublist_code)
section \<open>The combined query\<close>

lemma combined_result:
  "location args = Some place \<Longrightarrow>
   transitGetCombinedInfo e args =
     (case shownArrivals (combinedSubway e (normalizeStationName place)) of
        None \<Rightarrow> Inl TypeError
      | Some shown \<Rightarrow>
          Inr (if formatOf args = ascii ''json''
               then JSON_stringify e
                      (combinedJson place (length (combinedSubway e (normalizeStationName place)))
                         shown
                         (combinedBusStations e (normalizeStationName place))
                         (combinedBikeStations e (normalizeStationName place)))
               else truncateResponse (combinedText e place shown)))"
  by (simp add: transitGetCombinedInfo_def combinedText_def Let_def split: option.splits)



lemma bikeMatches_swap [simp]:
  "bikeMatches (e\<lparr>fetchSubwayArrival := h\<rparr>) = bikeMatches e"
  "bikeMatches (e\<lparr>fetchBusStops := f\<rparr>) = bikeMatches e"
  "bikeMatches (e\<lparr>fetchBikeList := g\<rparr>) = bikeMatches e"
  by (simp_all add: fun_eq_iff bikeMatches_def split: option.splits)

lemma availRate_swap [simp]:
  "availRate (e\<lparr>fetchSubwayArrival := h\<rparr>) = availRate e"
  "availRate (e\<lparr>fetchBusStops := f\<rparr>) = availRate e"
  "availRate (e\<lparr>fetchBikeList := g\<rparr>) = availRate e"
  by (simp_all add: fun_eq_iff availRate_def)

lemma combinedSubway_swap [simp]:
  "combinedSubway (e\<lparr>fetchBusStops := f\<rparr>) loc = combinedSubway e loc"
  "combinedSubway (e\<lparr>fetchBikeList := g\<rparr>) loc = combinedSubway e loc"
  by (simp_all add: combinedSubway_def split: sum.splits)

lemma combinedBusStations_swap [simp]:
  "combinedBusStations (e\<lparr>fetchSubwayArrival := h\<rparr>) loc = combinedBusStations e loc"
  "combinedBusStations (e\<lparr>fetchBikeList := g\<rparr>) loc = combinedBusStations e loc"
  by (simp_all add: combinedBusStations_def split: sum.splits)

lemma combinedBikeStations_swap [simp]:
  "combinedBikeStations (e\<lparr>fetchSubwayArrival := h\<rparr>) loc = combinedBikeStations e loc"
  "combinedBikeStations (e\<lparr>fetchBusStops := f\<rparr>) loc = combinedBikeStations e loc"
  by (simp_all add: combinedBikeStations_def split: sum.splits)

lemma combinedBikeLine_swap [simp]:
  "combinedBikeLine (e\<lparr>fetchSubwayArrival := h\<rparr>) = combinedBikeLine e"
  "combinedBikeLine (e\<lparr>fetchBusStops := f\<rparr>) = combinedBikeLine e"
  "combinedBikeLine (e\<lparr>fetchBikeList := g\<rparr>) = combinedBikeLine e"
  by (simp_all add: fun_eq_iff combinedBikeLine_def)

lemma combinedMarkdown_swap [simp]:
  "combinedMarkdown (e\<lparr>fetchSubwayArrival := h\<rparr>) = combinedMarkdown e"
  "combinedMarkdown (e\<lparr>fetchBusStops := f\<rparr>) = combinedMarkdown e"
  "combinedMarkdown (e\<lparr>fetchBikeList := g\<rparr>) = combinedMarkdown e"
  by (simp_all add: fun_eq_iff combinedMarkdown_def combinedBikeSection_def)


















section \<open>The size of the answers\<close>

lemma subwayArrivals_sampleFeeds:
  "subwayArrivals sampleFeeds lim station = Inr [trainTo (ascii ''A''), trainTo (ascii ''B'')]"
  by (simp add: subwayArrivals_def sampleFeeds_def twoTrainFeeds_def quietFeeds_def
      subwayApiError_def)

lemma busArrivals_sampleFeeds: "busArrivals sampleFeeds stop = Inr [busOnRoute (ascii ''146'')]"
  by (simp add: busArrivals_def sampleFeeds_def twoTrainFeeds_def quietFeeds_def)

lemma bikeSearchStations_sampleFeeds: "bikeSearchStations sampleFeeds gangnam 10 = Inr [bikeDock]"
proof -
  have "fetchBikePage sampleFeeds (Suc 0) = Inr [bikeDock]"
    by (simp add: fetchBikePage_def sampleFeeds_def twoTrainFeeds_def quietFeeds_def)
  moreover have "bikeMatches sampleFeeds gangnam bikeDock"
    by (simp add: bikeMatches_def bikeDock_def sampleFeeds_def twoTrainFeeds_def quietFeeds_def
        str_toLowerCase_def asciiLower_def gangnam_def gangnamStation_def)
  ultimately have "snd (scanBikeStations sampleFeeds gangnam 10 (Suc 0) [] []) = Inr [bikeDock]"
    by (simp add: scanBikeStations.simps [of _ _ _ "Suc 0"] pageSize_def)
  then show ?thesis
    by (simp add: bikeSearchStations_def slice0_def)
qed

lemma stopSearchStations_quietFeeds: "stopSearchStations quietFeeds q 10 = Inr []"
proof -
  have "fetchStopPage quietFeeds (Suc 0) = Inr []"
    by (simp add: fetchStopPage_def quietFeeds_def)
  then have "snd (scanBusStops quietFeeds q 10 (Suc 0) [] []) = Inr []"
    by (simp add: scanBusStops.simps [of _ _ _ "Suc 0"] pageSize_def)
  then show ?thesis
    by (simp add: stopSearchStations_def array_sort_def slice0_def)
qed

lemma sampleArguments_simps:
  "limitOf sampleArguments = 10"
  "formatOf sampleArguments = ascii ''markdown''"
  "limitOf (sampleArguments\<lparr>response_format := Some (ascii ''json'')\<rparr>) = 10"
  "formatOf (sampleArguments\<lparr>response_format := Some (ascii ''json'')\<rparr>) = ascii ''json''"
  by (simp_all add: limitOf_def formatOf_def or_str_def sampleArguments_def ascii_def)

lemma shownArrivals_sampleFeeds:
  "shownArrivals (combinedSubway sampleFeeds loc)
     = Some [trainTo (ascii ''A''), trainTo (ascii ''B'')]"
  by (simp add: shownArrivals_def combinedSubway_def sampleFeeds_def twoTrainFeeds_def
      slice0_def)

lemma bikeSearchStations_quietFeeds: "bikeSearchStations quietFeeds q 10 = Inr []"
proof -
  have "fetchBikePage quietFeeds (Suc 0) = Inr []"
    by (simp add: fetchBikePage_def quietFeeds_def)
  then have "snd (scanBikeStations quietFeeds q 10 (Suc 0) [] []) = Inr []"
    by (simp add: scanBikeStations.simps [of _ _ _ "Suc 0"] pageSize_def)
  then show ?thesis
    by (simp add: bikeSearchStations_def slice0_def)
qed

lemma stopSearchStations_busFeedDown:
  "stopSearchStations busFeedDown q 10 = Inl (ascii ''timeout'')"
proof -
  have "fetchStopPage busFeedDown (Suc 0) = Inl (ascii ''timeout'')"
    by (simp add: fetchStopPage_def busFeedDown_def)
  then have "snd (scanBusStops busFeedDown q 10 (Suc 0) [] []) = Inl (ascii ''timeout'')"
    by (simp add: scanBusStops.simps [of _ _ _ "Suc 0"])
  then show ?thesis
    by (simp add: stopSearchStations_def)
qed

lemma subwayArrivals_nullRecordFeeds:
  "subwayArrivals nullRecordFeeds lim station = Inl nullReadError"
  by (simp add: subwayArrivals_def subwayApiError_def nullRecordFeeds_def quietFeeds_def)

text \<open>
  C5, as amended. Whatever \<open>truncateResponse\<close> returns has at most 25000 code units,
  and every text answer that lists results is returned through it: the answer of the
  combined tool, and the answers of the subway, bus, stop-search and bike tools for a
  look-up that succeeded with at least one result. In the structured form the answer of
  a look-up that succeeded is what \<open>JSON_stringify\<close> returns for the composed object,
  untouched. The other text answers are returned as composed, whatever their length: the
  empty-state text of each of the four tools for a look-up that succeeded without a
  result, its failure text for a look-up that failed, in either form, and the two answers
  of the status tool.
\<close>

theorem listings_bounded_json_untruncated:
  "length (truncateResponse content) \<le> 25000 \<and>
   (location args = Some place \<and>
    shownArrivals (combinedSubway e (normalizeStationName place)) = Some shown \<longrightarrow>
      transitGetCombinedInfo e args =
        Inr (if formatOf args = ascii ''json''
             then JSON_stringify e
                    (combinedJson place (length (combinedSubway e (normalizeStationName place)))
                       shown
                       (combinedBusStations e (normalizeStationName place))
                       (combinedBikeStations e (normalizeStationName place)))
             else truncateResponse (combinedText e place shown))) \<and>
   (station_name args = Some name \<and>
    subwayArrivals e (limitOf args) (normalizeStationName name) = Inr arrivals \<and>
    (formatOf args = ascii ''json'' \<or> arrivals \<noteq> []) \<longrightarrow>
      transitGetSubwayArrival e args =
        Inr (if formatOf args = ascii ''json''
             then JSON_stringify e (subwayJson (normalizeStationName name) arrivals)
             else truncateResponse (subwayMarkdown (normalizeStationName name) arrivals))) \<and>
   (station_name args = Some name \<and>
    subwayArrivals e (limitOf args) (normalizeStationName name) = Inr [] \<and> formatOf args \<noteq> ascii ''json'' \<longrightarrow>
      transitGetSubwayArrival e args = Inr (subwayEmpty (normalizeStationName name))) \<and>
   (station_name args = Some name \<and>
    subwayArrivals e (limitOf args) (normalizeStationName name) = Inl msg \<longrightarrow>
      transitGetSubwayArrival e args = Inr (subwayFailure msg)) \<and>
   (busArrivals e (tpl (ars_id args)) = Inr buses \<and>
    (formatOf args = ascii ''json'' \<or> buses \<noteq> []) \<longrightarrow>
      transitGetBusArrival e args =
        Inr (if formatOf args = ascii ''json''
             then JSON_stringify e (busJson (ars_id args) (limitOf args) buses)
             else truncateResponse (busMarkdown (ars_id args) (limitOf args) buses))) \<and>
   (busArrivals e (tpl (ars_id args)) = Inr [] \<and> formatOf args \<noteq> ascii ''json'' \<longrightarrow>
      transitGetBusArrival e args = Inr (busEmpty (ars_id args))) \<and>
   (busArrivals e (tpl (ars_id args)) = Inl msg \<longrightarrow>
      transitGetBusArrival e args = Inr (busFailure msg)) \<and>
   (query args = Some input \<and>
    stopSearchStations e (str_trim input) (limitOf args) = Inr stops \<and>
    (formatOf args = ascii ''json'' \<or> stops \<noteq> []) \<longrightarrow>
      transitSearchBusStation e args =
        Inr (if formatOf args = ascii ''json''
             then JSON_stringify e (stopSearchJson (str_trim input) stops)
             else truncateResponse (stopSearchMarkdown (str_trim input) stops))) \<and>
   (query args = Some input \<and>
    stopSearchStations e (str_trim input) (limitOf args) = Inr [] \<and> formatOf args \<noteq> ascii ''json'' \<longrightarrow>
      transitSearchBusStation e args = Inr (stopSearchEmpty (str_trim input))) \<and>
   (query args = Some input \<and>
    stopSearchStations e (str_trim input) (limitOf args) = Inl msg \<longrightarrow>
      transitSearchBusStation e args = Inr (stopSearchFailure msg)) \<and>
   (query args = Some input \<and>
    bikeSearchStations e (str_trim input) (limitOf args) = Inr docks \<and>
    (formatOf args = ascii ''json'' \<or> docks \<noteq> []) \<longrightarrow>
      transitGetBikeStation e args =
        Inr (if formatOf args = ascii ''json''
             then JSON_stringify e (bikeJson (str_trim input) docks)
             else truncateResponse (bikeMarkdown e (str_trim input) docks))) \<and>
   (query args = Some input \<and>
    bikeSearchStations e (str_trim input) (limitOf args) = Inr [] \<and> formatOf args \<noteq> ascii ''json'' \<longrightarrow>
      transitGetBikeStation e args = Inr (bikeEmpty (str_trim input))) \<and>
   (query args = Some input \<and>
    bikeSearchStations e (str_trim input) (limitOf args) = Inl msg \<longrightarrow>
      transitGetBikeStation e args = Inr (bikeFailure msg)) \<and>
   transitGetSubwayStatus e args =
     Inr (if formatOf args = ascii ''json''
          then JSON_stringify e (subwayStatusJson (statusTitle args))
          else subwayStatusText (statusTitle args))"
proof (intro conjI impI)
  show "length (truncateResponse content) \<le> 25000"
    using length_truncateResponse [of content] by (simp add: CHARACTER_LIMIT_def)
  show "transitGetCombinedInfo e args =
        Inr (if formatOf args = ascii ''json''
             then JSON_stringify e
                    (combinedJson place (length (combinedSubway e (normalizeStationName place)))
                       shown
                       (combinedBusStations e (normalizeStationName place))
                       (combinedBikeStations e (normalizeStationName place)))
             else truncateResponse (combinedText e place shown))"
    if "location args = Some place \<and>
        shownArrivals (combinedSubway e (normalizeStationName place)) = Some shown"
    using that by (simp add: combined_result)
  show "transitGetSubwayArrival e args =
        Inr (if formatOf args = ascii ''json''
             then JSON_stringify e (subwayJson (normalizeStationName name) arrivals)
             else truncateResponse (subwayMarkdown (normalizeStationName name) arrivals))"
    if "station_name args = Some name \<and>
        subwayArrivals e (limitOf args) (normalizeStationName name) = Inr arrivals \<and>
        (formatOf args = ascii ''json'' \<or> arrivals \<noteq> [])"
    using that by (auto simp add: transitGetSubwayArrival_def Let_def)
  show "transitGetSubwayArrival e args = Inr (subwayEmpty (normalizeStationName name))"
    if "station_name args = Some name \<and>
        subwayArrivals e (limitOf args) (normalizeStationName name) = Inr [] \<and> formatOf args \<noteq> ascii ''json''"
    using that by (simp add: transitGetSubwayArrival_def Let_def)
  show "transitGetSubwayArrival e args = Inr (subwayFailure msg)"
    if "station_name args = Some name \<and>
        subwayArrivals e (limitOf args) (normalizeStationName name) = Inl msg"
    using that by (simp add: transitGetSubwayArrival_def Let_def)
  show "transitGetBusArrival e args =
        Inr (if formatOf args = ascii ''json''
             then JSON_stringify e (busJson (ars_id args) (limitOf args) buses)
             else truncateResponse (busMarkdown (ars_id args) (limitOf args) buses))"
    if "busArrivals e (tpl (ars_id args)) = Inr buses \<and>
        (formatOf args = ascii ''json'' \<or> buses \<noteq> [])"
    using that by (auto simp add: transitGetBusArrival_def Let_def)
  show "transitGetBusArrival e args = Inr (busEmpty (ars_id args))"
    if "busArrivals e (tpl (ars_id args)) = Inr [] \<and> formatOf args \<noteq> ascii ''json''"
    using that by (simp add: transitGetBusArrival_def Let_def)
  show "transitGetBusArrival e args = Inr (busFailure msg)"
    if "busArrivals e (tpl (ars_id args)) = Inl msg"
    using that by (simp add: transitGetBusArrival_def Let_def)
  show "transitSearchBusStation e args =
        Inr (if formatOf args = ascii ''json''
             then JSON_stringify e (stopSearchJson (str_trim input) stops)
             else truncateResponse (stopSearchMarkdown (str_trim input) stops))"
    if "query args = Some input \<and>
        stopSearchStations e (str_trim input) (limitOf args) = Inr stops \<and>
        (formatOf args = ascii ''json'' \<or> stops \<noteq> [])"
    using that by (auto simp add: transitSearchBusStation_def Let_def)
  show "transitSearchBusStation e args = Inr (stopSearchEmpty (str_trim input))"
    if "query args = Some input \<and>
        stopSearchStations e (str_trim input) (limitOf args) = Inr [] \<and> formatOf args \<noteq> ascii ''json''"
    using that by (simp add: transitSearchBusStation_def Let_def)
  show "transitSearchBusStation e args = Inr (stopSearchFailure msg)"
    if "query args = Some input \<and>
        stopSearchStations e (str_trim input) (limitOf args) = Inl msg"
    using that by (simp add: transitSearchBusStation_def Let_def)
  show "transitGetBikeStation e args =
        Inr (if formatOf args = ascii ''json''
             then JSON_stringify e (bikeJson (str_trim input) docks)
             else truncateResponse (bikeMarkdown e (str_trim input) docks))"
    if "query args = Some input \<and>
        bikeSearchStations e (str_trim input) (limitOf args) = Inr docks \<and>
        (formatOf args = ascii ''json'' \<or> docks \<noteq> [])"
    using that by (auto simp add: transitGetBikeStation_def Let_def)
  show "transitGetBikeStation e args = Inr (bikeEmpty (str_trim input))"
    if "query args = Some input \<and>
        bikeSearchStations e (str_trim input) (limitOf args) = Inr [] \<and> formatOf args \<noteq> ascii ''json''"
    using that by (simp add: transitGetBikeStation_def Let_def)
  show "transitGetBikeStation e args = Inr (bikeFailure msg)"
    if "query args = Some input \<and>
        bikeSearchStations e (str_trim input) (limitOf args) = Inl msg"
    using that by (simp add: transitGetBikeStation_def Let_def)
  show "transitGetSubwayStatus e args =
     Inr (if formatOf args = ascii ''json''
          then JSON_stringify e (subwayStatusJson (statusTitle args))
          else subwayStatusText (statusTitle args))"
    by (simp add: transitGetSubwayStatus_def Let_def)
qed

theorem listings_bounded_json_untruncated_witness:
  "transitGetCombinedInfo sampleFeeds sampleArguments
     = Inr (truncateResponse (combinedText sampleFeeds gangnamStation
              [trainTo (ascii ''A''), trainTo (ascii ''B'')])) \<and>
   length (truncateResponse (combinedText sampleFeeds gangnamStation
              [trainTo (ascii ''A''), trainTo (ascii ''B'')])) \<le> 25000 \<and>
   transitGetSubwayArrival sampleFeeds sampleArguments
     = Inr (truncateResponse (subwayMarkdown gangnam [trainTo (ascii ''A''), trainTo (ascii ''B'')])) \<and>
   transitGetBusArrival sampleFeeds sampleArguments
     = Inr (truncateResponse (busMarkdown (Some (ascii ''22001'')) 10 [busOnRoute (ascii ''146'')])) \<and>
   transitSearchBusStation sampleFeeds sampleArguments
     = Inr (truncateResponse (stopSearchMarkdown gangnam
         [stopNamed gangnam (ascii ''22003''), stopNamed gangnamStation (ascii ''22001''),
          stopNamed gangnamOffice (ascii ''22002'')])) \<and>
   transitGetBikeStation sampleFeeds sampleArguments
     = Inr (truncateResponse (bikeMarkdown sampleFeeds gangnam [bikeDock])) \<and>
   transitSearchBusStation sampleFeeds (sampleArguments\<lparr>response_format := Some (ascii ''json'')\<rparr>)
     = Inr (replicate 30000 0x20) \<and>
   transitGetBikeStation sampleFeeds (sampleArguments\<lparr>response_format := Some (ascii ''json'')\<rparr>)
     = Inr (replicate 30000 0x20) \<and>
   length (replicate 30000 (0x20 :: 16 word)) = 30000 \<and>
   transitSearchBusStation quietFeeds sampleArguments = Inr (stopSearchEmpty gangnam) \<and>
   transitGetBikeStation quietFeeds sampleArguments = Inr (bikeEmpty gangnam) \<and>
   transitSearchBusStation busFeedDown sampleArguments
     = Inr (stopSearchFailure (ascii ''timeout'')) \<and>
   transitGetSubwayArrival nullRecordFeeds sampleArguments
     = Inr (subwayFailure nullReadError)"
proof -
  have args:
    "location sampleArguments = Some gangnamStation"
    "station_name sampleArguments = Some gangnamStation"
    "query sampleArguments = Some gangnam"
    "ars_id sampleArguments = Some (ascii ''22001'')"
    by (simp_all add: sampleArguments_def)
  have stringify: "JSON_stringify sampleFeeds v = replicate 30000 0x20" for v
    by (simp add: sampleFeeds_def)
  note t1 = listings_bounded_json_untruncated [where e = sampleFeeds and args = sampleArguments
      and place = gangnamStation and name = gangnamStation and input = gangnam
      and content = "combinedText sampleFeeds gangnamStation
        [trainTo (ascii ''A''), trainTo (ascii ''B'')]"
      and shown = "[trainTo (ascii ''A''), trainTo (ascii ''B'')]"
      and arrivals = "[trainTo (ascii ''A''), trainTo (ascii ''B'')]"
      and buses = "[busOnRoute (ascii ''146'')]"
      and stops = "[stopNamed gangnam (ascii ''22003''), stopNamed gangnamStation (ascii ''22001''),
          stopNamed gangnamOffice (ascii ''22002'')]"
      and docks = "[bikeDock]"]
  note t2 = listings_bounded_json_untruncated [where e = sampleFeeds
      and args = "sampleArguments\<lparr>response_format := Some (ascii ''json'')\<rparr>"
      and input = gangnam
      and stops = "[stopNamed gangnam (ascii ''22003''), stopNamed gangnamStation (ascii ''22001''),
          stopNamed gangnamOffice (ascii ''22002'')]"
      and docks = "[bikeDock]"]
  note t3 = listings_bounded_json_untruncated [where e = quietFeeds and args = sampleArguments
      and input = gangnam]
  note t4 = listings_bounded_json_untruncated [where e = busFeedDown and args = sampleArguments
      and input = gangnam and msg = "ascii ''timeout''"]
  note t5 = listings_bounded_json_untruncated [where e = nullRecordFeeds
      and args = sampleArguments and name = gangnamStation
      and msg = nullReadError]
  from t1 have "transitGetCombinedInfo sampleFeeds sampleArguments
      = Inr (truncateResponse (combinedText sampleFeeds gangnamStation
               [trainTo (ascii ''A''), trainTo (ascii ''B'')]))"
    "length (truncateResponse (combinedText sampleFeeds gangnamStation
               [trainTo (ascii ''A''), trainTo (ascii ''B'')])) \<le> 25000"
    "transitGetSubwayArrival sampleFeeds sampleArguments
      = Inr (truncateResponse (subwayMarkdown gangnam [trainTo (ascii ''A''), trainTo (ascii ''B'')]))"
    "transitGetBusArrival sampleFeeds sampleArguments
      = Inr (truncateResponse (busMarkdown (Some (ascii ''22001'')) 10 [busOnRoute (ascii ''146'')]))"
    "transitSearchBusStation sampleFeeds sampleArguments
      = Inr (truncateResponse (stopSearchMarkdown gangnam
         [stopNamed gangnam (ascii ''22003''), stopNamed gangnamStation (ascii ''22001''),
          stopNamed gangnamOffice (ascii ''22002'')]))"
    "transitGetBikeStation sampleFeeds sampleArguments
      = Inr (truncateResponse (bikeMarkdown sampleFeeds gangnam [bikeDock]))"
    by (simp_all add: args sampleArguments_simps not_json normalize_gangnamStation
        str_trim_gangnam subwayArrivals_sampleFeeds busArrivals_sampleFeeds
        stopSearchStations_sampleFeeds bikeSearchStations_sampleFeeds
        shownArrivals_sampleFeeds tpl_def)
  moreover from t2 have
    "transitSearchBusStation sampleFeeds (sampleArguments\<lparr>response_format := Some (ascii ''json'')\<rparr>)
      = Inr (replicate 30000 0x20)"
    "transitGetBikeStation sampleFeeds (sampleArguments\<lparr>response_format := Some (ascii ''json'')\<rparr>)
      = Inr (replicate 30000 0x20)"
    by (simp_all add: args sampleArguments_simps str_trim_gangnam
        stopSearchStations_sampleFeeds bikeSearchStations_sampleFeeds stringify)
  moreover from t3 have
    "transitSearchBusStation quietFeeds sampleArguments = Inr (stopSearchEmpty gangnam)"
    "transitGetBikeStation quietFeeds sampleArguments = Inr (bikeEmpty gangnam)"
    by (simp_all add: args sampleArguments_simps not_json str_trim_gangnam
        stopSearchStations_quietFeeds bikeSearchStations_quietFeeds)
  moreover from t4 have
    "transitSearchBusStation busFeedDown sampleArguments
      = Inr (stopSearchFailure (ascii ''timeout''))"
    by (simp add: args sampleArguments_simps str_trim_gangnam stopSearchStations_busFeedDown)
  moreover from t5 have
    "transitGetSubwayArrival nullRecordFeeds sampleArguments
      = Inr (subwayFailure nullReadError)"
    by (simp add: args sampleArguments_simps normalize_gangnamStation
        subwayArrivals_nullRecordFeeds)
  ultimately show ?thesis by simp
qed

lemma length_stopSearchEmpty: "length (stopSearchEmpty q) = length q + 33"
  by (simp add: stopSearchEmpty_def length_ascii)

lemma length_subwayStatusText: "length (subwayStatusText title) = length title + 65"
  by (simp add: subwayStatusText_def length_ascii)

theorem empty_state_exceeds_limit:
  "formatOf (emptyArguments\<lparr>query := Some longPlace\<rparr>) = ascii ''markdown'' \<and>
   transitSearchBusStation quietFeeds (emptyArguments\<lparr>query := Some longPlace\<rparr>)
     = Inr (stopSearchEmpty longPlace) \<and>
   length (stopSearchEmpty longPlace) = 25033 \<and>
   formatOf (emptyArguments\<lparr>line := Some longPlace\<rparr>) = ascii ''markdown'' \<and>
   transitGetSubwayStatus quietFeeds (emptyArguments\<lparr>line := Some longPlace\<rparr>)
     = Inr (subwayStatusText (statusTitle (emptyArguments\<lparr>line := Some longPlace\<rparr>))) \<and>
   length (subwayStatusText (statusTitle (emptyArguments\<lparr>line := Some longPlace\<rparr>))) = 25067"
proof -
  have fmt: "formatOf (emptyArguments\<lparr>query := Some longPlace\<rparr>) = ascii ''markdown''"
    "formatOf (emptyArguments\<lparr>line := Some longPlace\<rparr>) = ascii ''markdown''"
    by (simp_all add: formatOf_def or_str_def emptyArguments_def)
  have lim: "limitOf (emptyArguments\<lparr>query := Some longPlace\<rparr>) = 10"
    by (simp add: limitOf_def emptyArguments_def)
  have "transitSearchBusStation quietFeeds (emptyArguments\<lparr>query := Some longPlace\<rparr>)
      = Inr (stopSearchEmpty longPlace)"
    by (simp add: transitSearchBusStation_def fmt lim not_json str_trim_id trimmed_longPlace
        stopSearchStations_quietFeeds)
  moreover have "length (stopSearchEmpty longPlace) = 25033"
    by (simp add: length_stopSearchEmpty longPlace_def)
  moreover have "transitGetSubwayStatus quietFeeds (emptyArguments\<lparr>line := Some longPlace\<rparr>)
      = Inr (subwayStatusText (statusTitle (emptyArguments\<lparr>line := Some longPlace\<rparr>)))"
    by (simp add: transitGetSubwayStatus_def fmt not_json)
  moreover
  have "length (subwayStatusText (statusTitle (emptyArguments\<lparr>line := Some longPlace\<rparr>))) = 25067"
    by (simp add: length_subwayStatusText statusTitle_def or_str_def longPlace_def)
  ultimately show ?thesis
    using fmt by simp
qed

end
